theory Spec2Isabelle
  imports Complex_Main
begin

section \<open>The layer-rotation engine (src/src/RubiksCube.js)\<close>

text \<open>
  The engine stores every cubie as a three.js mesh: a local \<open>position\<close> and a local
  \<open>rotation\<close> (Euler angles, order XYZ). All the transforms the engine ever commits are
  quarter turns, so the model computes them exactly: a position component is an \<open>int\<close>,
  an angle is an \<open>int\<close> counting quarter turns (the unit is \<open>Math.PI / 2\<close>), and a
  rotation matrix has entries in \<open>{-1, 0, 1}\<close>. three.js keeps the orientation as a
  quaternion next to the Euler angles; the model keeps the rotation matrix the quaternion
  stands for. The scale of a mesh is never touched by the engine and is left out.
  What exact arithmetic cannot decide, the sign of an angle of half a turn, is an input of
  the model.
\<close>

subsection \<open>Vectors, matrices, Euler angles\<close>

datatype axis = X | Y | Z

type_synonym vec3 = "int \<times> int \<times> int"

text \<open>A matrix is the triple of its rows.\<close>

type_synonym mat3 = "vec3 \<times> vec3 \<times> vec3"

fun getComponent :: "axis \<Rightarrow> vec3 \<Rightarrow> int" where
  "getComponent X (x, y, z) = x"
| "getComponent Y (x, y, z) = y"
| "getComponent Z (x, y, z) = z"

fun setComponent :: "axis \<Rightarrow> int \<Rightarrow> vec3 \<Rightarrow> vec3" where
  "setComponent X v (x, y, z) = (v, y, z)"
| "setComponent Y v (x, y, z) = (x, v, z)"
| "setComponent Z v (x, y, z) = (x, y, v)"

text \<open>\<open>Math.cos\<close> and \<open>Math.sin\<close> at \<open>k\<close> quarter turns.\<close>

definition cosq :: "int \<Rightarrow> int" where
  "cosq k = (if k mod 4 = 0 then 1 else if k mod 4 = 2 then - 1 else 0)"

definition sinq :: "int \<Rightarrow> int" where
  "sinq k = (if k mod 4 = 1 then 1 else if k mod 4 = 3 then - 1 else 0)"

text \<open>
  \<open>Math.asin\<close> on \<open>-1, 0, 1\<close> (after three.js' \<open>clamp(m13, -1, 1)\<close>) and
  \<open>Math.atan2(y, x)\<close> on the four axis directions, in quarter turns. Off the axes the
  angle is no whole quarter turn; a rotation matrix of quarter turns never asks for one,
  and the model answers \<open>0\<close> there.

  Where \<open>y\<close> is zero and \<open>x\<close> is negative, JavaScript returns \<open>PI\<close> or \<open>-PI\<close> by the sign
  of \<open>y\<close>: in the program \<open>y\<close> is \<open>+0\<close>, \<open>-0\<close> or a rounding residue of either sign
  (\<open>atan2(-0, -1)\<close> is \<open>-PI\<close>). Exact arithmetic has one zero only, so that sign is the
  input \<open>neg\<close> of the model: \<open>True\<close> for a negative \<open>y\<close>. Where \<open>x\<close> is not negative the
  result is a zero of either sign, the integer \<open>0\<close> after rounding.
\<close>

definition asinq :: "int \<Rightarrow> int" where
  "asinq v = max (- 1) (min 1 v)"

definition atan2q :: "bool \<Rightarrow> int \<Rightarrow> int \<Rightarrow> int" where
  "atan2q neg y x =
     (if y = 0 then (if x < 0 then (if neg then - 2 else 2) else 0)
      else if x = 0 then (if 0 < y then 1 else - 1)
      else 0)"

text \<open>\<open>Matrix4.makeRotationFromEuler\<close>, order XYZ (the upper 3x3 block).\<close>

definition makeRotationFromEuler :: "vec3 \<Rightarrow> mat3" where
  "makeRotationFromEuler euler =
     (case euler of (x, y, z) \<Rightarrow>
        let a = cosq x; b = sinq x;
            c = cosq y; d = sinq y;
            e = cosq z; f = sinq z;
            ae = a * e; af = a * f; be = b * e; bf = b * f
        in ((c * e, - c * f, d),
            (af + be * d, ae - bf * d, - b * c),
            (bf - ae * d, be + af * d, a * c)))"

text \<open>
  \<open>Euler.setFromRotationMatrix\<close>, order XYZ, with its gimbal-lock branch. \<open>sg\<close> holds
  the signs of the zeros its two calls of \<open>Math.atan2\<close> meet: first the one for \<open>x\<close>, then
  the one for \<open>z\<close>.
\<close>

definition setFromRotationMatrix :: "bool \<times> bool \<Rightarrow> mat3 \<Rightarrow> vec3" where
  "setFromRotationMatrix sg m =
     (case m of ((m11, m12, m13), (m21, m22, m23), (m31, m32, m33)) \<Rightarrow>
        if \<bar>m13\<bar> < 1
        then (atan2q (fst sg) (- m23) m33, asinq m13, atan2q (snd sg) (- m12) m11)
        else (atan2q (fst sg) m32 m22, asinq m13, 0))"

definition applyMatrix3 :: "mat3 \<Rightarrow> vec3 \<Rightarrow> vec3" where
  "applyMatrix3 m v =
     (case m of ((m11, m12, m13), (m21, m22, m23), (m31, m32, m33)) \<Rightarrow>
      case v of (x, y, z) \<Rightarrow>
        (m11 * x + m12 * y + m13 * z,
         m21 * x + m22 * y + m23 * z,
         m31 * x + m32 * y + m33 * z))"

definition multiplyMatrices :: "mat3 \<Rightarrow> mat3 \<Rightarrow> mat3" where
  "multiplyMatrices a b =
     (case b of ((b11, b12, b13), (b21, b22, b23), (b31, b32, b33)) \<Rightarrow>
        let c1 = applyMatrix3 a (b11, b21, b31);
            c2 = applyMatrix3 a (b12, b22, b32);
            c3 = applyMatrix3 a (b13, b23, b33)
        in (case c1 of (x1, y1, z1) \<Rightarrow>
            case c2 of (x2, y2, z2) \<Rightarrow>
            case c3 of (x3, y3, z3) \<Rightarrow>
              ((x1, x2, x3), (y1, y2, y3), (z1, z2, z3))))"

subsection \<open>The cubie store and the engine state\<close>

record cubie =
  position :: vec3
  rotation :: vec3

text \<open>
  The closure of an animated turn: the pivot (its axis and current angle), the cubies
  attached to it (indices into \<open>cubies\<close>, which is never reordered), and the captured
  \<open>targetRotation\<close>, \<open>startTime\<close> and \<open>duration\<close>. The pivot's angle between frames is
  \<open>targetRotation * ease\<close>, a fraction of a quarter turn.
\<close>

record animation =
  activeCubies :: "nat list"
  pivotAxis :: axis
  targetRotation :: int
  startTime :: rat
  duration :: rat
  pivotAngle :: rat

record cube_state =
  cubies :: "cubie list"
  isAnimating :: bool
  pending :: "animation option"

text \<open>The constructor: three nested loops over \<open>-1 .. 1\<close>, no rotation, idle.\<close>

definition newCubies :: "cubie list" where
  "newCubies =
     concat (map (\<lambda>x. concat (map (\<lambda>y. map (\<lambda>z.
       \<lparr>position = (x, y, z), rotation = (0, 0, 0)\<rparr>) [- 1, 0, 1]) [- 1, 0, 1])) [- 1, 0, 1])"

definition newRubiksCube :: cube_state where
  "newRubiksCube = \<lparr>cubies = newCubies, isAnimating = False, pending = None\<rparr>"

text \<open>\<open>Math.round\<close> on a value that is already an integer.\<close>

definition Math_round :: "int \<Rightarrow> int" where
  "Math_round v = v"

text \<open>
  The pivot is created with \<open>rotation.set(0, 0, 0)\<close> and only its \<open>axis\<close> component is
  written, so its matrix is the Euler matrix of that one angle.
\<close>

definition pivotMatrix :: "axis \<Rightarrow> int \<Rightarrow> mat3" where
  "pivotMatrix ax q = makeRotationFromEuler (setComponent ax q (0, 0, 0))"

text \<open>
  \<open>this.attach(c)\<close> in \<open>finishRotation\<close>: the cubie leaves the pivot for the root group and
  keeps its world transform, so its new local matrix is the pivot's matrix times its old
  one; \<open>decompose\<close> reads position and orientation back.
\<close>

definition attachToRoot :: "mat3 \<Rightarrow> bool \<times> bool \<Rightarrow> cubie \<Rightarrow> cubie" where
  "attachToRoot pm sg c =
     \<lparr>position = applyMatrix3 pm (position c),
      rotation =
        setFromRotationMatrix sg (multiplyMatrices pm (makeRotationFromEuler (rotation c)))\<rparr>"

text \<open>The rounding of positions and angles; one quarter turn is the unit of angle.\<close>

definition roundCubie :: "cubie \<Rightarrow> cubie" where
  "roundCubie c =
     (case position c of (px, py, pz) \<Rightarrow>
      case rotation c of (rx, ry, rz) \<Rightarrow>
        \<lparr>position = (Math_round px, Math_round py, Math_round pz),
         rotation = (Math_round (rx div 1) * 1, Math_round (ry div 1) * 1,
                     Math_round (rz div 1) * 1)\<rparr>)"

text \<open>
  \<open>finishRotation(pivot, activeCubies, axis)\<close>; \<open>q\<close> is the pivot's angle when it is
  called, a whole number of quarter turns on both paths. \<open>sgs\<close> gives, for every cubie
  of the store, the signs of the zeros met when its Euler angles are read back.
\<close>

type_synonym residues = "nat \<Rightarrow> bool \<times> bool"

definition finishRotation ::
  "int \<Rightarrow> nat list \<Rightarrow> axis \<Rightarrow> residues \<Rightarrow> cube_state \<Rightarrow> cube_state" where
  "finishRotation q active ax sgs st =
     st\<lparr>cubies :=
          foldl (\<lambda>cs i. cs[i := roundCubie (attachToRoot (pivotMatrix ax q) (sgs i) (cs ! i))])
            (cubies st) active,
        isAnimating := False,
        pending := None\<rparr>"

text \<open>The filter of \<open>rotateLayer\<close>, as the indices of the cubies it keeps.\<close>

definition selectLayer :: "cubie list \<Rightarrow> axis \<Rightarrow> int \<Rightarrow> nat list" where
  "selectLayer cs ax index =
     filter (\<lambda>i. Math_round (getComponent ax (position (cs ! i))) = index) [0 ..< length cs]"

text \<open>
  \<open>rotateLayer(axis, index, direction, animate, duration)\<close>. \<open>now\<close> is what
  \<open>performance.now()\<close> returns on the animated path, \<open>sgs\<close> what \<open>finishRotation\<close> meets
  on the instant path. Attaching a cubie to the fresh pivot leaves its local transform as
  it is, since the pivot's rotation is still zero.
\<close>

definition rotateLayer ::
  "axis \<Rightarrow> int \<Rightarrow> int \<Rightarrow> bool \<Rightarrow> rat \<Rightarrow> rat \<Rightarrow> residues \<Rightarrow> cube_state \<Rightarrow> cube_state"
  where
  "rotateLayer ax index direction animate dur now sgs st =
     (if isAnimating st then st
      else
        let active = selectLayer (cubies st) ax index in
        if length active = 0 then st
        else
          let target = 1 * direction * - 1 in
          if animate
          then st\<lparr>isAnimating := True,
                  pending := Some \<lparr>activeCubies = active, pivotAxis = ax,
                                   targetRotation = target, startTime = now,
                                   duration = dur, pivotAngle = 0\<rparr>\<rparr>
          else finishRotation target active ax sgs st)"

text \<open>
  One animation frame, \<open>animateStep(time)\<close>. It runs only while a frame is requested. In
  the last frame \<open>progress\<close> is \<open>1\<close>, so \<open>ease\<close> is \<open>1\<close> and the pivot's angle is
  \<open>targetRotation\<close> itself when \<open>finishRotation\<close> reads it. The duration is positive
  by the contract of \<open>rotateLayer\<close>; a duration of zero, where JavaScript divides to
  \<open>Infinity\<close> or \<open>NaN\<close>, is outside the model.
\<close>

definition animateStep :: "rat \<Rightarrow> residues \<Rightarrow> cube_state \<Rightarrow> cube_state" where
  "animateStep time sgs st =
     (case pending st of
        None \<Rightarrow> st
      | Some a \<Rightarrow>
          let elapsed = time - startTime a;
              progress = min (elapsed / duration a) 1;
              ease = 1 - (1 - progress) ^ 3;
              a' = a\<lparr>pivotAngle := of_int (targetRotation a) * ease\<rparr>
          in if progress < 1 then st\<lparr>pending := Some a'\<rparr>
             else finishRotation (targetRotation a) (activeCubies a) (pivotAxis a) sgs
                    (st\<lparr>pending := Some a'\<rparr>))"

subsection \<open>Runs of the engine\<close>

datatype event =
  RotateLayer axis int int bool rat rat residues
| Frame rat residues

fun step :: "cube_state \<Rightarrow> event \<Rightarrow> cube_state" where
  "step st (RotateLayer ax index direction animate dur now sgs) =
     rotateLayer ax index direction animate dur now sgs st"
| "step st (Frame time sgs) = animateStep time sgs st"

definition run :: "event list \<Rightarrow> cube_state \<Rightarrow> cube_state" where
  "run evs st = foldl step st evs"

text \<open>
  The calls the contract allows: a layer index in \<open>{-1, 0, 1}\<close>, a direction in
  \<open>{1, -1}\<close>, a positive duration.
\<close>

fun validEvent :: "event \<Rightarrow> bool" where
  "validEvent (RotateLayer ax index direction animate dur now sgs) =
     ((index = - 1 \<or> index = 0 \<or> index = 1) \<and> (direction = 1 \<or> direction = - 1) \<and> 0 < dur)"
| "validEvent (Frame time sgs) = True"

subsection \<open>Notions used to state the engine's properties\<close>

text \<open>
  What \<open>finishRotation\<close> does to one cubie of the turning layer, and what the filter of
  \<open>rotateLayer\<close> asks of a cubie.
\<close>

definition turnCubie :: "axis \<Rightarrow> int \<Rightarrow> bool \<times> bool \<Rightarrow> cubie \<Rightarrow> cubie" where
  "turnCubie ax q sg c = roundCubie (attachToRoot (pivotMatrix ax q) sg c)"

definition inLayer :: "axis \<Rightarrow> int \<Rightarrow> cubie \<Rightarrow> bool" where
  "inLayer ax index c = (Math_round (getComponent ax (position c)) = index)"

text \<open>
  The orientation of a cubie is the rotation its Euler angles stand for: the angles
  \<open>PI\<close> and \<open>-PI\<close> are one orientation. The pose of a cubie is its position and its
  orientation.
\<close>

definition orientation :: "cubie \<Rightarrow> mat3" where
  "orientation c = makeRotationFromEuler (rotation c)"

definition pose :: "cubie \<Rightarrow> vec3 \<times> mat3" where
  "pose c = (position c, orientation c)"

text \<open>A turn of the pivot by \<open>q\<close> quarter turns, on a position and on the poses of a layer.\<close>

definition turnPosition :: "axis \<Rightarrow> int \<Rightarrow> vec3 \<Rightarrow> vec3" where
  "turnPosition ax q p = applyMatrix3 (pivotMatrix ax q) p"

definition layerPosition :: "axis \<Rightarrow> int \<Rightarrow> int \<Rightarrow> vec3 \<Rightarrow> vec3" where
  "layerPosition ax index q p = (if getComponent ax p = index then turnPosition ax q p else p)"

definition layerPose :: "axis \<Rightarrow> int \<Rightarrow> int \<Rightarrow> vec3 \<times> mat3 \<Rightarrow> vec3 \<times> mat3" where
  "layerPose ax index q pa =
     (if getComponent ax (fst pa) = index
      then (turnPosition ax q (fst pa), multiplyMatrices (pivotMatrix ax q) (snd pa))
      else pa)"

text \<open>The 27 grid positions, in the constructor's order, and the test for one.\<close>

definition gridPositions :: "vec3 list" where
  "gridPositions =
     concat (map (\<lambda>x. concat (map (\<lambda>y. map (\<lambda>z. (x, y, z)) [- 1, 0, 1]) [- 1, 0, 1])) [- 1, 0, 1])"

fun inGrid :: "vec3 \<Rightarrow> bool" where
  "inGrid (x, y, z) = (- 1 \<le> x \<and> x \<le> 1 \<and> - 1 \<le> y \<and> y \<le> 1 \<and> - 1 \<le> z \<and> z \<le> 1)"

text \<open>
  The 24 rotations of the cube, each the triple of its rows: the orientations a cubie
  takes at rest.
\<close>

definition cubeRotations :: "mat3 list" where
  "cubeRotations =
     [((1, 0, 0), (0, 1, 0), (0, 0, 1)), ((1, 0, 0), (0, 0, - 1), (0, 1, 0)),
      ((1, 0, 0), (0, - 1, 0), (0, 0, - 1)), ((1, 0, 0), (0, 0, 1), (0, - 1, 0)),
      ((- 1, 0, 0), (0, 1, 0), (0, 0, - 1)), ((- 1, 0, 0), (0, 0, - 1), (0, - 1, 0)),
      ((- 1, 0, 0), (0, - 1, 0), (0, 0, 1)), ((- 1, 0, 0), (0, 0, 1), (0, 1, 0)),
      ((0, 1, 0), (0, 0, 1), (1, 0, 0)), ((0, 1, 0), (1, 0, 0), (0, 0, - 1)),
      ((0, 1, 0), (0, 0, - 1), (- 1, 0, 0)), ((0, 1, 0), (- 1, 0, 0), (0, 0, 1)),
      ((0, - 1, 0), (0, 0, 1), (- 1, 0, 0)), ((0, - 1, 0), (1, 0, 0), (0, 0, 1)),
      ((0, - 1, 0), (0, 0, - 1), (1, 0, 0)), ((0, - 1, 0), (- 1, 0, 0), (0, 0, - 1)),
      ((0, 0, 1), (1, 0, 0), (0, 1, 0)), ((0, 0, 1), (0, 1, 0), (- 1, 0, 0)),
      ((0, 0, 1), (- 1, 0, 0), (0, - 1, 0)), ((0, 0, 1), (0, - 1, 0), (1, 0, 0)),
      ((0, 0, - 1), (1, 0, 0), (0, - 1, 0)), ((0, 0, - 1), (0, 1, 0), (1, 0, 0)),
      ((0, 0, - 1), (- 1, 0, 0), (0, 1, 0)), ((0, 0, - 1), (0, - 1, 0), (- 1, 0, 0))]"

definition goodCubies :: "cubie list \<Rightarrow> bool" where
  "goodCubies cs =
     (distinct (map position cs) \<and> set (map position cs) = set gridPositions \<and>
      list_all (\<lambda>c. orientation c \<in> set cubeRotations) cs)"

text \<open>
  The invariant of the engine: the cubies are good, the busy flag is set exactly while an
  animation is pending, and the cubies attached to the pivot are one layer of the store.
\<close>

definition wellFormed :: "cube_state \<Rightarrow> bool" where
  "wellFormed st =
     (goodCubies (cubies st) \<and> (isAnimating st = (pending st \<noteq> None)) \<and>
      (case pending st of
         None \<Rightarrow> True
       | Some a \<Rightarrow>
           (\<exists>index. activeCubies a = selectLayer (cubies st) (pivotAxis a) index) \<and>
           (targetRotation a = 1 \<or> targetRotation a = - 1)))"

section \<open>The gesture resolver (src/src/components/Cube.jsx, src/backup/control.js)\<close>

text \<open>
  The resolver normalises vectors, so its numbers are \<open>real\<close>. The camera is the
  function \<open>project\<close> from a world point to normalized screen space; the resolver only
  reads it. A pick (\<open>startIntersect\<close>) names the touched mesh by its index in \<open>cubies\<close>,
  and carries the local face normal and the world intersection point.
\<close>

subsection \<open>three.js vectors\<close>

type_synonym rvec2 = "real \<times> real"
type_synonym rvec3 = "real \<times> real \<times> real"
type_synonym rmat3 = "rvec3 \<times> rvec3 \<times> rvec3"

text \<open>\<open>Vector2.normalize\<close> is \<open>divideScalar(length() || 1)\<close>: the zero vector stays zero.\<close>

definition normalize2 :: "rvec2 \<Rightarrow> rvec2" where
  "normalize2 v =
     (case v of (x, y) \<Rightarrow>
        let l = sqrt (x * x + y * y); s = (if l = 0 then 1 else l)
        in (x / s, y / s))"

definition dot2 :: "rvec2 \<Rightarrow> rvec2 \<Rightarrow> real" where
  "dot2 a b = (case a of (ax, ay) \<Rightarrow> case b of (bx, by) \<Rightarrow> ax * bx + ay * by)"

definition normalize3 :: "rvec3 \<Rightarrow> rvec3" where
  "normalize3 v =
     (case v of (x, y, z) \<Rightarrow>
        let l = sqrt (x * x + y * y + z * z); s = (if l = 0 then 1 else l)
        in (x / s, y / s, z / s))"

definition dot3 :: "rvec3 \<Rightarrow> rvec3 \<Rightarrow> real" where
  "dot3 a b =
     (case a of (ax, ay, az) \<Rightarrow> case b of (bx, by, bz) \<Rightarrow> ax * bx + ay * by + az * bz)"

definition crossVectors :: "rvec3 \<Rightarrow> rvec3 \<Rightarrow> rvec3" where
  "crossVectors a b =
     (case a of (ax, ay, az) \<Rightarrow> case b of (bx, by, bz) \<Rightarrow>
        (ay * bz - az * by, az * bx - ax * bz, ax * by - ay * bx))"

definition addVec :: "rvec3 \<Rightarrow> rvec3 \<Rightarrow> rvec3" where
  "addVec a b =
     (case a of (ax, ay, az) \<Rightarrow> case b of (bx, by, bz) \<Rightarrow> (ax + bx, ay + by, az + bz))"

definition applyMatrix3r :: "rmat3 \<Rightarrow> rvec3 \<Rightarrow> rvec3" where
  "applyMatrix3r m v =
     (case m of ((m11, m12, m13), (m21, m22, m23), (m31, m32, m33)) \<Rightarrow>
      case v of (x, y, z) \<Rightarrow>
        (m11 * x + m12 * y + m13 * z,
         m21 * x + m22 * y + m23 * z,
         m31 * x + m32 * y + m33 * z))"

text \<open>\<open>Matrix3.invert\<close>: the zero matrix when the determinant is zero.\<close>

definition invert :: "rmat3 \<Rightarrow> rmat3" where
  "invert m =
     (case m of ((n11, n12, n13), (n21, n22, n23), (n31, n32, n33)) \<Rightarrow>
        let t11 = n33 * n22 - n32 * n23;
            t12 = n32 * n13 - n33 * n12;
            t13 = n23 * n12 - n22 * n13;
            det = n11 * t11 + n21 * t12 + n31 * t13
        in if det = 0 then ((0, 0, 0), (0, 0, 0), (0, 0, 0))
           else
             let detInv = 1 / det
             in ((t11 * detInv, t12 * detInv, t13 * detInv),
                 ((n31 * n23 - n33 * n21) * detInv, (n33 * n11 - n31 * n13) * detInv,
                  (n21 * n13 - n23 * n11) * detInv),
                 ((n32 * n21 - n31 * n22) * detInv, (n31 * n12 - n32 * n11) * detInv,
                  (n22 * n11 - n21 * n12) * detInv)))"

definition transpose3 :: "rmat3 \<Rightarrow> rmat3" where
  "transpose3 m =
     (case m of ((m11, m12, m13), (m21, m22, m23), (m31, m32, m33)) \<Rightarrow>
        ((m11, m21, m31), (m12, m22, m32), (m13, m23, m33)))"

definition getNormalMatrix :: "rmat3 \<Rightarrow> rmat3" where
  "getNormalMatrix m = transpose3 (invert m)"

definition realVec :: "vec3 \<Rightarrow> rvec3" where
  "realVec v = (case v of (x, y, z) \<Rightarrow> (of_int x, of_int y, of_int z))"

text \<open>
  The upper 3x3 block of a cubie's \<open>matrixWorld\<close>. The resolver runs only while the
  engine is idle, when every cubie hangs off the root group; the root group and its
  parents carry no transform, so the block is the cubie's own rotation.
\<close>

definition matrixWorld :: "cubie \<Rightarrow> rmat3" where
  "matrixWorld c =
     (case makeRotationFromEuler (rotation c) of (r1, r2, r3) \<Rightarrow>
        (realVec r1, realVec r2, realVec r3))"

subsection \<open>From a drag sample to a move\<close>

datatype move = Move axis int int

datatype gesture_error = TypeError

definition worldNormalOf :: "cubie \<Rightarrow> rvec3 \<Rightarrow> rvec3" where
  "worldNormalOf obj normal =
     normalize3 (applyMatrix3r (getNormalMatrix (matrixWorld obj)) normal)"

definition possibleAxes :: "rvec3 \<Rightarrow> rvec3 list" where
  "possibleAxes worldNormal =
     (case worldNormal of (nx, ny, nz) \<Rightarrow>
        if \<bar>nx\<bar> > 9 / 10 then [(0, 1, 0), (0, 0, 1)]
        else if \<bar>ny\<bar> > 9 / 10 then [(1, 0, 0), (0, 0, 1)]
        else [(1, 0, 0), (0, 1, 0)])"

text \<open>
  The screen direction of a candidate axis: the pick point and the point one unit along
  the axis, both projected, their difference (not yet normalised).
\<close>

definition screenVector :: "(rvec3 \<Rightarrow> rvec3) \<Rightarrow> rvec3 \<Rightarrow> rvec3 \<Rightarrow> rvec2" where
  "screenVector project pt ax =
     (case project (addVec pt ax) of (px, py, pz) \<Rightarrow>
      case project pt of (ox, oy, oz) \<Rightarrow> (px - ox, py - oy))"

text \<open>
  The \<open>forEach\<close> over the candidates, from \<open>maxDot = 0\<close> and \<open>bestAxis = null\<close>. Where
  the two scores are equal as real numbers the strict comparison keeps the first
  candidate; the program compares doubles, which on such a tie can differ in the last
  place either way, so there either candidate can win.
\<close>

definition chooseAxis ::
  "(rvec3 \<Rightarrow> rvec3) \<Rightarrow> rvec3 \<Rightarrow> rvec2 \<Rightarrow> rvec3 list \<Rightarrow> real \<times> rvec3 option" where
  "chooseAxis project pt dragVec axes =
     foldl (\<lambda>(maxDot, bestAxis) ax.
              let axisVec2D = normalize2 (screenVector project pt ax);
                  dot = \<bar>dot2 dragVec axisVec2D\<bar>
              in if dot > maxDot then (dot, Some ax) else (maxDot, bestAxis))
       (0, None) axes"

definition rotAxisNameOf :: "rvec3 \<Rightarrow> axis" where
  "rotAxisNameOf v =
     (case v of (vx, vy, vz) \<Rightarrow>
        let n = X;
            n = (if \<bar>vy\<bar> > 9 / 10 then Y else n);
            n = (if \<bar>vz\<bar> > 9 / 10 then Z else n)
        in n)"

text \<open>The body of \<open>if (maxDot > 0.5)\<close>, up to the arguments of \<open>rotateLayer\<close>.\<close>

definition decideMove ::
  "(rvec3 \<Rightarrow> rvec3) \<Rightarrow> cubie \<Rightarrow> rvec3 \<Rightarrow> rvec3 \<Rightarrow> rvec2 \<Rightarrow> rvec3 \<Rightarrow> move" where
  "decideMove project obj worldNormal pt dragVec movementAxis =
     (let rotationAxisVector = normalize3 (crossVectors movementAxis worldNormal);
          rotAxisName = rotAxisNameOf rotationAxisVector;
          layerCoord = Math_round (getComponent rotAxisName (position obj));
          axisVec2D = screenVector project pt movementAxis;
          projected = dot2 dragVec (normalize2 axisVec2D);
          directionSign = (if projected > 0 then 1 else - 1);
          cross = normalize3 (crossVectors worldNormal movementAxis);
          standardRotAxis = realVec (setComponent rotAxisName 1 (0, 0, 0));
          rotDir = (if dot3 cross standardRotAxis < 0 then directionSign * - 1 else directionSign)
      in Move rotAxisName layerCoord rotDir)"


text \<open>
  The resolver of Cube.jsx on one sample \<open>(dx, dy)\<close>, from the dead zone to the decision:
  \<open>Inr None\<close> when it returns without a call, \<open>Inr (Some m)\<close> when it calls
  \<open>rotateLayer\<close> with the move \<open>m\<close>, \<open>Inl TypeError\<close> where \<open>crossVectors\<close> would read the
  components of \<open>null\<close>.
\<close>

definition resolveMove ::
  "(rvec3 \<Rightarrow> rvec3) \<Rightarrow> cubie \<Rightarrow> rvec3 \<Rightarrow> rvec3 \<Rightarrow> real \<Rightarrow> real \<Rightarrow> gesture_error + move option"
  where
  "resolveMove project obj normal pt dx dy =
     (if \<bar>dx\<bar> < 2 \<and> \<bar>dy\<bar> < 2 then Inr None
      else
        let worldNormal = worldNormalOf obj normal;
            axes = possibleAxes worldNormal;
            dragVec = normalize2 (dx, - dy)
        in case chooseAxis project pt dragVec axes of
             (maxDot, bestAxis) \<Rightarrow>
               if maxDot > 1 / 2
               then (case bestAxis of
                       None \<Rightarrow> Inl TypeError
                     | Some movementAxis \<Rightarrow>
                         Inr (Some (decideMove project obj worldNormal pt dragVec movementAxis)))
               else Inr None)"

text \<open>Whether a sample ends in a call of \<open>rotateLayer\<close>.\<close>

definition emitsMove :: "gesture_error + move option \<Rightarrow> bool" where
  "emitsMove r = (case r of Inr (Some m) \<Rightarrow> True | Inr None \<Rightarrow> False | Inl e \<Rightarrow> False)"

text \<open>
  The resolver of control.js. It runs the raycast again on every sample and returns when
  the pointer is off the cube (\<open>current\<close> is what \<open>getIntersect(event)\<close> hits: \<open>True\<close> for a
  cubie, \<open>False\<close> for nothing). \<open>axisName\<close> and \<open>layerIndex\<close> are computed there from the
  movement axis and never used.
\<close>

definition resolveMove_backup ::
  "bool \<Rightarrow> (rvec3 \<Rightarrow> rvec3) \<Rightarrow> cubie \<Rightarrow> rvec3 \<Rightarrow> rvec3 \<Rightarrow> real \<Rightarrow> real
   \<Rightarrow> gesture_error + move option" where
  "resolveMove_backup current project obj normal pt dx dy =
     (if \<not> current then Inr None
      else if \<bar>dx\<bar> < 2 \<and> \<bar>dy\<bar> < 2 then Inr None
      else
        let worldNormal = worldNormalOf obj normal;
            axes = possibleAxes worldNormal;
            dragVec = normalize2 (dx, - dy)
        in case chooseAxis project pt dragVec axes of
             (maxDot, bestAxis) \<Rightarrow>
               if maxDot > 1 / 2
               then (case bestAxis of
                       None \<Rightarrow> Inl TypeError
                     | Some movementAxis \<Rightarrow>
                         let axisName = rotAxisNameOf movementAxis;
                             layerIndex = Math_round (getComponent axisName (position obj))
                         in Inr (Some (decideMove project obj worldNormal pt dragVec movementAxis)))
               else Inr None)"

subsection \<open>The gesture session of Cube.jsx\<close>







subsection \<open>Inputs used in the examples\<close>

text \<open>
  Two orthographic cameras: one looking down the \<open>z\<close> axis onto the front face, one
  looking at the front face from far to the side, so that the \<open>x\<close> and \<open>y\<close> axes fall
  almost onto one screen line (its screen axes \<open>(3, 4, 6)\<close> and \<open>(4, 3, -4)\<close> are
  orthogonal). The cubies are the solved cube's corner at \<open>(1, 1, 1)\<close>, number 26 of the
  store, and its edge at \<open>(0, 1, 1)\<close>, number 17, both picked on the front face. The two
  residue inputs make every zero positive, or every zero negative.
\<close>

definition noResidue :: residues where
  "noResidue i = (False, False)"

definition negResidue :: residues where
  "negResidue i = (True, True)"

definition edgeCubie :: cubie where
  "edgeCubie = \<lparr>position = (0, 1, 1), rotation = (0, 0, 0)\<rparr>"

definition frontCamera :: "rvec3 \<Rightarrow> rvec3" where
  "frontCamera p = p"


definition cornerCubie :: cubie where
  "cornerCubie = \<lparr>position = (1, 1, 1), rotation = (0, 0, 0)\<rparr>"



section \<open>Properties of the rotation engine\<close>

subsection \<open>finishRotation, cubie by cubie\<close>

lemma upd_fold_length: "length (foldl (\<lambda>cs i. cs[i := f i (cs ! i)]) cs is) = length cs"
  by (induction "is" arbitrary: cs) auto

lemma upd_fold_nth:
  "distinct is \<Longrightarrow> j < length cs \<Longrightarrow>
   foldl (\<lambda>cs i. cs[i := f i (cs ! i)]) cs is ! j = (if j \<in> set is then f j (cs ! j) else cs ! j)"
proof (induction "is" arbitrary: cs)
  case Nil
  then show ?case by simp
next
  case (Cons i "is")
  have len: "j < length (cs[i := f i (cs ! i)])" using Cons.prems by simp
  have d: "distinct is" and ni: "i \<notin> set is" using Cons.prems by auto
  show ?case
  proof (cases "j = i")
    case True
    then show ?thesis using Cons.IH[OF d len] ni Cons.prems by simp
  next
    case False
    then show ?thesis using Cons.IH[OF d len] by auto
  qed
qed

lemma selectLayer_set:
  "set (selectLayer cs ax index) = {i. i < length cs \<and> inLayer ax index (cs ! i)}"
  by (auto simp: selectLayer_def inLayer_def)

lemma selectLayer_distinct: "distinct (selectLayer cs ax index)"
  by (simp add: selectLayer_def)

lemma finishRotation_length:
  "length (cubies (finishRotation q active ax sgs st)) = length (cubies st)"
  using upd_fold_length[where f = "\<lambda>i c. roundCubie (attachToRoot (pivotMatrix ax q) (sgs i) c)"]
  by (simp add: finishRotation_def)

lemma finishRotation_nth:
  assumes "j < length (cubies st)"
  shows "cubies (finishRotation q (selectLayer (cubies st) ax index) ax sgs st) ! j
         = (if inLayer ax index (cubies st ! j) then turnCubie ax q (sgs j) (cubies st ! j)
            else cubies st ! j)"
  using assms upd_fold_nth[OF selectLayer_distinct assms,
      where f = "\<lambda>i c. roundCubie (attachToRoot (pivotMatrix ax q) (sgs i) c)"
        and cs1 = "cubies st" and ax1 = ax and index1 = index]
  by (simp add: finishRotation_def turnCubie_def selectLayer_set)

lemma finishRotation_flags:
  "isAnimating (finishRotation q active ax sgs st) = False"
  "pending (finishRotation q active ax sgs st) = None"
  by (simp_all add: finishRotation_def)

lemma selectLayer_empty_iff:
  "(length (selectLayer cs ax index) = 0) = (\<forall>c \<in> set cs. \<not> inLayer ax index c)"
  by (auto simp add: selectLayer_def inLayer_def filter_empty_conv all_set_conv_all_nth)

lemma rotateLayer_busy: "isAnimating st \<Longrightarrow> rotateLayer ax index d an dur now sgs st = st"
  by (simp add: rotateLayer_def)

lemma rotateLayer_animated_residues:
  "rotateLayer ax index d True dur now sgs st = rotateLayer ax index d True dur now sgs' st"
  by (simp add: rotateLayer_def Let_def)

subsection \<open>Quarter turns of positions and of orientations\<close>

lemma cosq_cases:
  "(cosq q = 1 \<and> sinq q = 0) \<or> (cosq q = 0 \<and> sinq q = 1) \<or>
   (cosq q = - 1 \<and> sinq q = 0) \<or> (cosq q = 0 \<and> sinq q = - 1)"
proof -
  have "q mod 4 = 0 \<or> q mod 4 = 1 \<or> q mod 4 = 2 \<or> q mod 4 = 3" by presburger
  then show ?thesis by (auto simp: cosq_def sinq_def)
qed

lemma cosq_0: "cosq 0 = 1"
  by (simp add: cosq_def)

lemma sinq_0: "sinq 0 = 0"
  by (simp add: sinq_def)

lemma turnPosition_X:
  "turnPosition X q (x, y, z) = (x, cosq q * y - sinq q * z, sinq q * y + cosq q * z)"
  by (simp add: turnPosition_def pivotMatrix_def makeRotationFromEuler_def applyMatrix3_def
        Let_def cosq_0 sinq_0)

lemma turnPosition_Y:
  "turnPosition Y q (x, y, z) = (cosq q * x + sinq q * z, y, cosq q * z - sinq q * x)"
  by (simp add: turnPosition_def pivotMatrix_def makeRotationFromEuler_def applyMatrix3_def
        Let_def cosq_0 sinq_0)

lemma turnPosition_Z:
  "turnPosition Z q (x, y, z) = (cosq q * x - sinq q * y, sinq q * x + cosq q * y, z)"
  by (simp add: turnPosition_def pivotMatrix_def makeRotationFromEuler_def applyMatrix3_def
        Let_def cosq_0 sinq_0)

lemmas turnPosition_simps = turnPosition_X turnPosition_Y turnPosition_Z

lemma turnPosition_axis: "getComponent ax (turnPosition ax q p) = getComponent ax p"
  by (cases ax; cases p) (simp_all add: turnPosition_simps)

lemma cosq_sinq_neg: "cosq (- q) = cosq q \<and> sinq (- q) = - sinq q"
proof -
  have "q mod 4 = 0 \<or> q mod 4 = 1 \<or> q mod 4 = 2 \<or> q mod 4 = 3" by presburger
  moreover have "q mod 4 = 0 \<Longrightarrow> (- q) mod 4 = 0" "q mod 4 = 1 \<Longrightarrow> (- q) mod 4 = 3"
    "q mod 4 = 2 \<Longrightarrow> (- q) mod 4 = 2" "q mod 4 = 3 \<Longrightarrow> (- q) mod 4 = 1" by presburger+
  ultimately show ?thesis
    by (auto simp: cosq_def sinq_def)
qed

lemma cosq_neg: "cosq (- q) = cosq q"
  using cosq_sinq_neg by simp

lemma sinq_neg: "sinq (- q) = - sinq q"
  using cosq_sinq_neg by simp

lemma turnPosition_inverse: "turnPosition ax (- q) (turnPosition ax q p) = p"
  using cosq_cases[of q]
  by (cases ax; cases p) (auto simp: turnPosition_simps cosq_neg sinq_neg)

lemma turnPosition_four:
  "turnPosition ax q (turnPosition ax q (turnPosition ax q (turnPosition ax q p))) = p"
  using cosq_cases[of q]
  by (cases ax; cases p) (auto simp: turnPosition_simps)

lemma turnPosition_inGrid: "inGrid p \<Longrightarrow> inGrid (turnPosition ax q p)"
  using cosq_cases[of q]
  by (cases ax; cases p) (auto simp: turnPosition_simps)

text \<open>The pivot turns a matrix column by column.\<close>

lemma multiply_pivot:
  "multiplyMatrices (pivotMatrix ax q) ((a, b, c), (d, e, f), (g, h, i)) =
     (case turnPosition ax q (a, d, g) of (x1, y1, z1) \<Rightarrow>
      case turnPosition ax q (b, e, h) of (x2, y2, z2) \<Rightarrow>
      case turnPosition ax q (c, f, i) of (x3, y3, z3) \<Rightarrow>
        ((x1, x2, x3), (y1, y2, y3), (z1, z2, z3)))"
  by (simp add: multiplyMatrices_def turnPosition_def Let_def)

lemma multiply_pivot_four:
  "multiplyMatrices (pivotMatrix ax q) (multiplyMatrices (pivotMatrix ax q)
     (multiplyMatrices (pivotMatrix ax q) (multiplyMatrices (pivotMatrix ax q) m))) = m"
proof -
  obtain a b c d e f g h i where m: "m = ((a, b, c), (d, e, f), (g, h, i))"
    by (metis prod_cases3)
  show ?thesis
    unfolding m using cosq_cases[of q]
    by (cases ax) (auto simp: multiply_pivot turnPosition_simps)
qed

lemma multiply_pivot_inverse:
  "multiplyMatrices (pivotMatrix ax (- q)) (multiplyMatrices (pivotMatrix ax q) m) = m"
proof -
  obtain a b c d e f g h i where m: "m = ((a, b, c), (d, e, f), (g, h, i))"
    by (metis prod_cases3)
  show ?thesis
    unfolding m using cosq_cases[of q]
    by (cases ax) (auto simp: multiply_pivot turnPosition_simps cosq_neg sinq_neg)
qed

subsection \<open>Orientations at rest\<close>

text \<open>
  Reading the Euler angles of a rotation of the cube and writing them back gives the
  rotation again, whatever the signs of the zeros; a quarter turn of the pivot takes a
  rotation of the cube to one. Both are checked rotation by rotation.
\<close>

lemma euler_roundtrip_list:
  "list_all (\<lambda>a. makeRotationFromEuler (setFromRotationMatrix (False, False) a) = a) cubeRotations"
  "list_all (\<lambda>a. makeRotationFromEuler (setFromRotationMatrix (False, True) a) = a) cubeRotations"
  "list_all (\<lambda>a. makeRotationFromEuler (setFromRotationMatrix (True, False) a) = a) cubeRotations"
  "list_all (\<lambda>a. makeRotationFromEuler (setFromRotationMatrix (True, True) a) = a) cubeRotations"
  by code_simp+

lemma euler_roundtrip:
  assumes "a \<in> set cubeRotations"
  shows "makeRotationFromEuler (setFromRotationMatrix sg a) = a"
proof -
  obtain s1 s2 where sg: "sg = (s1, s2)" by (cases sg)
  show ?thesis
    unfolding sg using assms euler_roundtrip_list unfolding list_all_iff
    by (cases s1; cases s2) auto
qed

lemma pivot_closed_list:
  "list_all (\<lambda>a. multiplyMatrices (pivotMatrix X 1) a \<in> set cubeRotations) cubeRotations"
  "list_all (\<lambda>a. multiplyMatrices (pivotMatrix X (- 1)) a \<in> set cubeRotations) cubeRotations"
  "list_all (\<lambda>a. multiplyMatrices (pivotMatrix Y 1) a \<in> set cubeRotations) cubeRotations"
  "list_all (\<lambda>a. multiplyMatrices (pivotMatrix Y (- 1)) a \<in> set cubeRotations) cubeRotations"
  "list_all (\<lambda>a. multiplyMatrices (pivotMatrix Z 1) a \<in> set cubeRotations) cubeRotations"
  "list_all (\<lambda>a. multiplyMatrices (pivotMatrix Z (- 1)) a \<in> set cubeRotations) cubeRotations"
  by code_simp+

lemma pivot_closed:
  assumes "a \<in> set cubeRotations" and "q = 1 \<or> q = - 1"
  shows "multiplyMatrices (pivotMatrix ax q) a \<in> set cubeRotations"
  using assms pivot_closed_list unfolding list_all_iff by (cases ax) auto

lemma identity_rotation: "makeRotationFromEuler (0, 0, 0) \<in> set cubeRotations"
  by code_simp

lemma position_turnCubie: "position (turnCubie ax q sg c) = turnPosition ax q (position c)"
  by (cases "turnPosition ax q (position c)")
     (simp add: turnCubie_def roundCubie_def attachToRoot_def turnPosition_def Math_round_def
        split: prod.splits)

lemma rotation_turnCubie:
  "rotation (turnCubie ax q sg c)
   = setFromRotationMatrix sg (multiplyMatrices (pivotMatrix ax q) (orientation c))"
  by (simp add: turnCubie_def roundCubie_def attachToRoot_def orientation_def Math_round_def
        split: prod.splits)

lemma orientation_turnCubie:
  assumes "orientation c \<in> set cubeRotations" and "q = 1 \<or> q = - 1"
  shows "orientation (turnCubie ax q sg c) = multiplyMatrices (pivotMatrix ax q) (orientation c)"
  using euler_roundtrip[OF pivot_closed[OF assms]]
  by (simp add: orientation_def[of "turnCubie ax q sg c"] rotation_turnCubie)

lemma pose_turnCubie:
  assumes "orientation c \<in> set cubeRotations" and "q = 1 \<or> q = - 1"
  shows "pose (turnCubie ax q sg c)
         = (turnPosition ax q (position c), multiplyMatrices (pivotMatrix ax q) (orientation c))"
  by (simp add: pose_def position_turnCubie orientation_turnCubie[OF assms])

subsection \<open>A turn permutes the grid\<close>

lemma layerPosition_inj: "inj (layerPosition ax index q)"
proof (rule injI)
  fix p p' assume eq: "layerPosition ax index q p = layerPosition ax index q p'"
  have ax: "getComponent ax (layerPosition ax index q r) = getComponent ax r" for r
    by (simp add: layerPosition_def turnPosition_axis)
  from eq have same: "getComponent ax p = getComponent ax p'"
    using ax[of p] ax[of p'] by simp
  show "p = p'"
  proof (cases "getComponent ax p = index")
    case True
    then have "turnPosition ax q p = turnPosition ax q p'"
      using eq same by (simp add: layerPosition_def)
    then have "turnPosition ax (- q) (turnPosition ax q p) = turnPosition ax (- q) (turnPosition ax q p')"
      by simp
    then show ?thesis by (simp add: turnPosition_inverse)
  next
    case False
    then show ?thesis using eq same by (simp add: layerPosition_def)
  qed
qed

lemma distinct_gridPositions: "distinct gridPositions"
  by (simp add: gridPositions_def)

lemma set_gridPositions_product:
  "set gridPositions = {- 1, 0, 1} \<times> {- 1, 0, 1} \<times> {- 1, 0, 1}"
  unfolding gridPositions_def by auto

lemma set_gridPositions: "(p \<in> set gridPositions) = inGrid p"
proof (cases p)
  case (fields x y z)
  have c: "(v \<in> {- 1, 0, 1}) = (- 1 \<le> v \<and> v \<le> 1)" for v :: int by auto
  show ?thesis unfolding fields inGrid.simps set_gridPositions_product mem_Times_iff fst_conv snd_conv c
    by simp
qed

lemma layerPosition_inGrid: "inGrid p \<Longrightarrow> inGrid (layerPosition ax index q p)"
  by (simp add: layerPosition_def turnPosition_inGrid)

lemma layerPosition_grid: "layerPosition ax index q ` set gridPositions = set gridPositions"
proof (rule card_subset_eq)
  show "finite (set gridPositions)" by simp
  show "layerPosition ax index q ` set gridPositions \<subseteq> set gridPositions"
    using layerPosition_inGrid by (auto simp: set_gridPositions)
  show "card (layerPosition ax index q ` set gridPositions) = card (set gridPositions)"
    by (rule card_image) (rule inj_on_subset[OF layerPosition_inj], simp)
qed

subsection \<open>A turn on the poses of the store\<close>

lemma fst_layerPose: "fst (layerPose ax index q pa) = layerPosition ax index q (fst pa)"
  by (simp add: layerPose_def layerPosition_def)

lemma snd_layerPose:
  assumes "snd pa \<in> set cubeRotations" and "q = 1 \<or> q = - 1"
  shows "snd (layerPose ax index q pa) \<in> set cubeRotations"
  using assms by (simp add: layerPose_def pivot_closed)

lemma goodCubies_orientation:
  "goodCubies cs \<Longrightarrow> c \<in> set cs \<Longrightarrow> orientation c \<in> set cubeRotations"
  by (simp add: goodCubies_def list_all_iff)

lemma finishRotation_pose:
  assumes "goodCubies (cubies st)" and "q = 1 \<or> q = - 1"
  shows "map pose (cubies (finishRotation q (selectLayer (cubies st) ax index) ax sgs st))
         = map (layerPose ax index q) (map pose (cubies st))"
proof (rule nth_equalityI)
  show "length (map pose (cubies (finishRotation q (selectLayer (cubies st) ax index) ax sgs st)))
        = length (map (layerPose ax index q) (map pose (cubies st)))"
    by (simp add: finishRotation_length)
next
  fix j
  assume "j < length (map pose (cubies (finishRotation q (selectLayer (cubies st) ax index) ax sgs st)))"
  then have j: "j < length (cubies st)" by (simp add: finishRotation_length)
  have o: "orientation (cubies st ! j) \<in> set cubeRotations"
    using goodCubies_orientation[OF assms(1)] j by simp
  have "pose (cubies (finishRotation q (selectLayer (cubies st) ax index) ax sgs st) ! j)
        = layerPose ax index q (pose (cubies st ! j))"
    unfolding finishRotation_nth[OF j]
    by (simp add: pose_turnCubie[OF o assms(2)] layerPose_def inLayer_def Math_round_def)
       (simp add: pose_def)
  then show "map pose (cubies (finishRotation q (selectLayer (cubies st) ax index) ax sgs st)) ! j
             = map (layerPose ax index q) (map pose (cubies st)) ! j"
    using j by (simp add: finishRotation_length)
qed

lemma goodCubies_turned:
  assumes "goodCubies cs" and "q = 1 \<or> q = - 1"
    and "map pose cs' = map (layerPose ax index q) (map pose cs)"
  shows "goodCubies cs'"
proof -
  have "map position cs' = map fst (map pose cs')" by (simp add: pose_def comp_def)
  also have "\<dots> = map (layerPosition ax index q) (map position cs)"
    unfolding assms(3) by (simp add: fst_layerPose pose_def comp_def)
  finally have pos: "map position cs' = map (layerPosition ax index q) (map position cs)" .
  have d: "distinct (map (layerPosition ax index q) (map position cs))"
    using assms(1) inj_on_subset[OF layerPosition_inj]
    by (simp only: distinct_map goodCubies_def) blast
  have s: "set (map (layerPosition ax index q) (map position cs)) = set gridPositions"
    using assms(1) layerPosition_grid[of ax index q] by (simp only: goodCubies_def set_map)
  have "map orientation cs' = map snd (map pose cs')" by (simp add: pose_def comp_def)
  also have "\<dots> = map (\<lambda>c. snd (layerPose ax index q (pose c))) cs"
    unfolding assms(3) by (simp add: comp_def)
  finally have ori: "map orientation cs' = map (\<lambda>c. snd (layerPose ax index q (pose c))) cs" .
  have "\<forall>c \<in> set cs. snd (layerPose ax index q (pose c)) \<in> set cubeRotations"
    using goodCubies_orientation[OF assms(1)] snd_layerPose[OF _ assms(2)]
    by (simp add: pose_def)
  then have "\<forall>m \<in> set (map orientation cs'). m \<in> set cubeRotations"
    unfolding ori by simp
  then have r: "list_all (\<lambda>c. orientation c \<in> set cubeRotations) cs'"
    by (simp add: list_all_iff)
  show ?thesis unfolding goodCubies_def pos using d s r by simp
qed

lemma goodCubies_finishRotation:
  assumes "goodCubies (cubies st)" and "q = 1 \<or> q = - 1"
  shows "goodCubies (cubies (finishRotation q (selectLayer (cubies st) ax index) ax sgs st))"
  by (rule goodCubies_turned[OF assms finishRotation_pose[OF assms]])

subsection \<open>The invariant along a run\<close>

lemma goodCubies_new: "goodCubies newCubies"
proof -
  have p: "map position newCubies = gridPositions"
    by (simp add: newCubies_def gridPositions_def)
  have r: "list_all (\<lambda>c. orientation c \<in> set cubeRotations) newCubies"
    using identity_rotation by (simp add: newCubies_def orientation_def)
  show ?thesis unfolding goodCubies_def p using distinct_gridPositions r by simp
qed

lemma wellFormed_new: "wellFormed newRubiksCube"
  by (simp add: wellFormed_def newRubiksCube_def goodCubies_new)

lemma wellFormed_finishRotation:
  assumes "goodCubies (cubies st)" and "q = 1 \<or> q = - 1"
  shows "wellFormed (finishRotation q (selectLayer (cubies st) ax index) ax sgs st)"
  using goodCubies_finishRotation[OF assms]
  by (simp add: wellFormed_def finishRotation_flags)

lemma wellFormed_rotateLayer:
  assumes "wellFormed st" and "d = 1 \<or> d = - 1"
  shows "wellFormed (rotateLayer ax index d an dur now sgs st)"
proof (cases "isAnimating st")
  case True
  then show ?thesis using assms by (simp add: rotateLayer_busy)
next
  case idle: False
  show ?thesis
  proof (cases "length (selectLayer (cubies st) ax index) = 0")
    case True
    then show ?thesis using assms idle by (simp add: rotateLayer_def)
  next
    case False
    show ?thesis
    proof (cases an)
      case True
      then show ?thesis using assms idle False
        by (auto simp: rotateLayer_def wellFormed_def)
    next
      case instant: False
      have g: "goodCubies (cubies st)" using assms(1) by (simp add: wellFormed_def)
      have q: "- d = 1 \<or> - d = - 1" using assms(2) by auto
      show ?thesis
        using instant idle False wellFormed_finishRotation[OF g q, of ax index sgs]
        by (simp add: rotateLayer_def)
    qed
  qed
qed

lemma finishRotation_pending:
  "finishRotation q active ax sgs (st\<lparr>pending := x\<rparr>) = finishRotation q active ax sgs st"
  by (simp add: finishRotation_def)

lemma wellFormed_animateStep:
  assumes "wellFormed st"
  shows "wellFormed (animateStep time sgs st)"
proof (cases "pending st")
  case None
  then show ?thesis using assms by (simp add: animateStep_def)
next
  case (Some a)
  from assms Some obtain index where
    act: "activeCubies a = selectLayer (cubies st) (pivotAxis a) index"
    and tr: "targetRotation a = 1 \<or> targetRotation a = - 1"
    and good: "goodCubies (cubies st)"
    by (auto simp: wellFormed_def)
  let ?a' = "a\<lparr>pivotAngle := of_int (targetRotation a) *
               (1 - (1 - min ((time - startTime a) / duration a) 1) ^ 3)\<rparr>"
  show ?thesis
  proof (cases "min ((time - startTime a) / duration a) 1 < 1")
    case True
    then have "animateStep time sgs st = st\<lparr>pending := Some ?a'\<rparr>"
      using Some by (simp add: animateStep_def Let_def)
    then show ?thesis using assms Some by (auto simp: wellFormed_def)
  next
    case False
    then have "animateStep time sgs st
               = finishRotation (targetRotation a) (selectLayer (cubies st) (pivotAxis a) index)
                   (pivotAxis a) sgs st"
      using Some act by (simp add: animateStep_def Let_def finishRotation_pending)
    then show ?thesis using wellFormed_finishRotation[OF good tr] by simp
  qed
qed

lemma wellFormed_step: "wellFormed st \<Longrightarrow> validEvent ev \<Longrightarrow> wellFormed (step st ev)"
  by (cases ev) (auto simp: wellFormed_rotateLayer wellFormed_animateStep)

lemma wellFormed_foldl:
  "wellFormed st \<Longrightarrow> list_all validEvent evs \<Longrightarrow> wellFormed (foldl step st evs)"
  by (induction evs arbitrary: st) (auto simp: wellFormed_step)

lemma wellFormed_run: "list_all validEvent evs \<Longrightarrow> wellFormed (run evs newRubiksCube)"
  unfolding run_def by (rule wellFormed_foldl[OF wellFormed_new])

text \<open>In the last frame of an animation the pivot stands at its target angle.\<close>

lemma last_frame_angle:
  fixes progress :: rat
  assumes "\<not> min progress 1 < 1"
  shows "of_int target * (1 - (1 - min progress 1) ^ 3) = (of_int target :: rat)"
proof -
  have "min progress 1 = 1" using assms by (simp add: min_def split: if_splits)
  then show ?thesis by simp
qed

subsection \<open>Four turns, a turn and its inverse\<close>

lemma layerPose_four:
  "layerPose ax index q (layerPose ax index q (layerPose ax index q (layerPose ax index q pa))) = pa"
  by (cases pa) (simp add: layerPose_def turnPosition_axis turnPosition_four multiply_pivot_four)

lemma layerPose_inverse:
  "layerPose ax index (- q) (layerPose ax index q pa) = pa"
  by (cases pa) (simp add: layerPose_def turnPosition_axis turnPosition_inverse multiply_pivot_inverse)

lemma layerPose_outside:
  assumes "\<forall>c \<in> set cs. \<not> inLayer ax index c"
  shows "map (layerPose ax index q) (map pose cs) = map pose cs"
  using assms by (induction cs) (auto simp: layerPose_def inLayer_def pose_def Math_round_def)

lemma rotateLayer_instant_pose:
  assumes "wellFormed st" and "\<not> isAnimating st" and "d = 1 \<or> d = - 1"
  shows "map pose (cubies (rotateLayer ax index d False dur now sgs st))
           = map (layerPose ax index (- d)) (map pose (cubies st)) \<and>
         \<not> isAnimating (rotateLayer ax index d False dur now sgs st) \<and>
         pending (rotateLayer ax index d False dur now sgs st) = None"
proof (cases "length (selectLayer (cubies st) ax index) = 0")
  case True
  then have "map (layerPose ax index (- d)) (map pose (cubies st)) = map pose (cubies st)"
    using layerPose_outside selectLayer_empty_iff by blast
  then show ?thesis using True assms by (simp add: rotateLayer_def wellFormed_def)
next
  case False
  have g: "goodCubies (cubies st)" using assms(1) by (simp add: wellFormed_def)
  have q: "- d = 1 \<or> - d = - 1" using assms(3) by auto
  show ?thesis
    using False assms(2) finishRotation_pose[OF g q, of ax index sgs]
    by (simp add: rotateLayer_def finishRotation_flags)
qed

lemma four_turns_pose:
  assumes wf: "wellFormed st" and d: "d = 1 \<or> d = - 1"
  shows "map pose (cubies
           (rotateLayer ax index d False dur4 now4 sgs4
             (rotateLayer ax index d False dur3 now3 sgs3
               (rotateLayer ax index d False dur2 now2 sgs2
                 (rotateLayer ax index d False dur1 now1 sgs1 st))))) = map pose (cubies st) \<and>
         isAnimating
           (rotateLayer ax index d False dur4 now4 sgs4
             (rotateLayer ax index d False dur3 now3 sgs3
               (rotateLayer ax index d False dur2 now2 sgs2
                 (rotateLayer ax index d False dur1 now1 sgs1 st)))) = isAnimating st \<and>
         pending
           (rotateLayer ax index d False dur4 now4 sgs4
             (rotateLayer ax index d False dur3 now3 sgs3
               (rotateLayer ax index d False dur2 now2 sgs2
                 (rotateLayer ax index d False dur1 now1 sgs1 st)))) = pending st"
proof (cases "isAnimating st")
  case True
  then show ?thesis by (simp add: rotateLayer_busy)
next
  case idle: False
  let ?g = "layerPose ax index (- d)"
  let ?s1 = "rotateLayer ax index d False dur1 now1 sgs1 st"
  let ?s2 = "rotateLayer ax index d False dur2 now2 sgs2 ?s1"
  let ?s3 = "rotateLayer ax index d False dur3 now3 sgs3 ?s2"
  let ?s4 = "rotateLayer ax index d False dur4 now4 sgs4 ?s3"
  have none: "pending st = None" using wf idle by (simp add: wellFormed_def)
  have r1: "map pose (cubies ?s1) = map ?g (map pose (cubies st))" "\<not> isAnimating ?s1"
    using rotateLayer_instant_pose[OF wf idle d] by simp_all
  have w1: "wellFormed ?s1" by (rule wellFormed_rotateLayer[OF wf d])
  have r2: "map pose (cubies ?s2) = map ?g (map pose (cubies ?s1))" "\<not> isAnimating ?s2"
    using rotateLayer_instant_pose[OF w1 r1(2) d] by simp_all
  have w2: "wellFormed ?s2" by (rule wellFormed_rotateLayer[OF w1 d])
  have r3: "map pose (cubies ?s3) = map ?g (map pose (cubies ?s2))" "\<not> isAnimating ?s3"
    using rotateLayer_instant_pose[OF w2 r2(2) d] by simp_all
  have w3: "wellFormed ?s3" by (rule wellFormed_rotateLayer[OF w2 d])
  have r4: "map pose (cubies ?s4) = map ?g (map pose (cubies ?s3))" "\<not> isAnimating ?s4"
    "pending ?s4 = None"
    using rotateLayer_instant_pose[OF w3 r3(2) d] by simp_all
  have "map pose (cubies ?s4) = map (\<lambda>pa. ?g (?g (?g (?g pa)))) (map pose (cubies st))"
    unfolding r4(1) r3(1) r2(1) r1(1) by (simp add: comp_def)
  also have "\<dots> = map pose (cubies st)"
    by (simp add: layerPose_four)
  finally show ?thesis using r4(2,3) idle none by simp
qed

lemma undo_turn_pose:
  assumes wf: "wellFormed st"
  shows "map pose (cubies
           (rotateLayer X 1 (- 1) False dur2 now2 sgs2
             (rotateLayer X 1 1 False dur1 now1 sgs1 st))) = map pose (cubies st) \<and>
         isAnimating
           (rotateLayer X 1 (- 1) False dur2 now2 sgs2
             (rotateLayer X 1 1 False dur1 now1 sgs1 st)) = isAnimating st \<and>
         pending
           (rotateLayer X 1 (- 1) False dur2 now2 sgs2
             (rotateLayer X 1 1 False dur1 now1 sgs1 st)) = pending st"
proof (cases "isAnimating st")
  case True
  then show ?thesis by (simp add: rotateLayer_busy)
next
  case idle: False
  let ?s1 = "rotateLayer X 1 1 False dur1 now1 sgs1 st"
  let ?s2 = "rotateLayer X 1 (- 1) False dur2 now2 sgs2 ?s1"
  have none: "pending st = None" using wf idle by (simp add: wellFormed_def)
  have r1: "map pose (cubies ?s1) = map (layerPose X 1 (- 1)) (map pose (cubies st))"
    "\<not> isAnimating ?s1"
    using rotateLayer_instant_pose[OF wf idle, of 1 X 1 dur1 now1 sgs1] by simp_all
  have w1: "wellFormed ?s1" by (rule wellFormed_rotateLayer[OF wf]) simp
  have r2: "map pose (cubies ?s2) = map (layerPose X 1 (- (- 1))) (map pose (cubies ?s1))"
    "\<not> isAnimating ?s2" "pending ?s2 = None"
    using rotateLayer_instant_pose[OF w1 r1(2), of "- 1" X 1 dur2 now2 sgs2] by simp_all
  have "map pose (cubies ?s2)
        = map (\<lambda>pa. layerPose X 1 (- (- 1)) (layerPose X 1 (- 1) pa)) (map pose (cubies st))"
    unfolding r2(1) r1(1) by (simp add: comp_def)
  also have "\<dots> = map pose (cubies st)"
    by (simp only: layerPose_inverse) simp
  finally show ?thesis using r2(2,3) idle none by simp
qed

subsection \<open>Layer counts\<close>

lemma length_filter_indices:
  "length (filter (\<lambda>i. P (cs ! i)) [0 ..< length cs]) = length (filter P cs)"
proof -
  have "filter P cs = filter P (map (\<lambda>i. cs ! i) [0 ..< length cs])"
    by (simp add: map_nth)
  also have "\<dots> = map (\<lambda>i. cs ! i) (filter (\<lambda>i. P (cs ! i)) [0 ..< length cs])"
    by (simp add: filter_map comp_def)
  finally show ?thesis by simp
qed

lemma grid_layer_count:
  assumes "index = - 1 \<or> index = 0 \<or> index = 1"
  shows "length (filter (\<lambda>p. getComponent ax p = index) gridPositions) = 9"
  using assms by (cases ax) (auto simp: gridPositions_def)

lemma selectLayer_count:
  assumes "goodCubies cs" and "index = - 1 \<or> index = 0 \<or> index = 1"
  shows "length (selectLayer cs ax index) = 9"
proof -
  let ?Q = "\<lambda>p. getComponent ax p = index"
  have "length (selectLayer cs ax index) = length (filter (\<lambda>c. ?Q (position c)) cs)"
    unfolding selectLayer_def Math_round_def by (rule length_filter_indices)
  also have "\<dots> = length (filter ?Q (map position cs))"
    by (simp add: filter_map comp_def)
  also have "\<dots> = card ({p. ?Q p} \<inter> set (map position cs))"
    using assms(1) unfolding goodCubies_def by (intro distinct_length_filter) simp
  also have "\<dots> = card ({p. ?Q p} \<inter> set gridPositions)"
    using assms(1) unfolding goodCubies_def by simp
  also have "\<dots> = length (filter ?Q gridPositions)"
    using distinct_gridPositions by (simp add: distinct_length_filter)
  finally show ?thesis using grid_layer_count[OF assms(2)] by simp
qed

lemma goodCubies_length: "goodCubies cs \<Longrightarrow> length cs = 27"
proof -
  assume g: "goodCubies cs"
  then have "length (map position cs) = card (set gridPositions)"
    by (metis goodCubies_def distinct_card)
  also have "\<dots> = length gridPositions" by (rule distinct_card[OF distinct_gridPositions])
  also have "\<dots> = 27" by (simp add: gridPositions_def)
  finally show ?thesis by simp
qed

lemma goodCubies_inGrid: "goodCubies cs \<Longrightarrow> c \<in> set cs \<Longrightarrow> inGrid (position c)"
  using set_gridPositions[of "position c"] by (auto simp: goodCubies_def)

lemma selectLayer_outside:
  assumes "goodCubies cs" and "index \<noteq> - 1" "index \<noteq> 0" "index \<noteq> 1"
  shows "selectLayer cs ax index = []"
proof -
  have "\<not> inLayer ax index c" if "c \<in> set cs" for c
    using goodCubies_inGrid[OF assms(1) that] assms(2-)
    by (cases ax; cases "position c") (auto simp: inLayer_def Math_round_def)
  then show ?thesis using selectLayer_empty_iff[of cs ax index] by simp
qed

subsection \<open>The busy lock\<close>

text \<open>
  Against claim C1: while an animated turn of the middle \<open>y\<close> layer is in flight, an
  instant call \<open>rotateLayer('x', 1, 1, false)\<close> changes no cubie, although the same call
  on the idle solved cube does. The guard \<open>if (this.isAnimating) return\<close> comes before
  \<open>animate\<close> is looked at.
\<close>

theorem busy_instant_call_dropped:
  "isAnimating (rotateLayer Y 0 1 True 300 0 noResidue newRubiksCube) \<and>
   cubies (rotateLayer X 1 1 False 300 5 noResidue
            (rotateLayer Y 0 1 True 300 0 noResidue newRubiksCube))
     = cubies (rotateLayer Y 0 1 True 300 0 noResidue newRubiksCube) \<and>
   cubies (rotateLayer X 1 1 False 300 5 noResidue newRubiksCube) \<noteq> cubies newRubiksCube"
  by code_simp

text \<open>
  Claim C1, amended: every \<open>rotateLayer\<close> call made while the engine is busy is dropped,
  whether \<open>animate\<close> is true or false, and leaves the whole state as it is; the instant
  path never sets the busy flag: called on an idle engine it leaves the engine idle.
\<close>

theorem busy_lock_covers_every_call:
  "(isAnimating st \<longrightarrow> rotateLayer ax index d animate dur now sgs st = st) \<and>
   (\<not> isAnimating st \<longrightarrow> \<not> isAnimating (rotateLayer ax index d False dur now sgs st))"
  by (simp add: rotateLayer_def finishRotation_def Let_def)

theorem busy_lock_covers_every_call_witness:
  "isAnimating (rotateLayer Y 0 1 True 300 0 noResidue newRubiksCube) \<and>
   rotateLayer X 1 1 False 300 5 noResidue (rotateLayer Y 0 1 True 300 0 noResidue newRubiksCube)
     = rotateLayer Y 0 1 True 300 0 noResidue newRubiksCube \<and>
   \<not> isAnimating newRubiksCube \<and>
   \<not> isAnimating (rotateLayer X 1 1 False 300 5 noResidue newRubiksCube)"
proof -
  have b: "isAnimating (rotateLayer Y 0 1 True 300 0 noResidue newRubiksCube)" by code_simp
  have i: "\<not> isAnimating newRubiksCube" by (simp add: newRubiksCube_def)
  show ?thesis
    using b i
      busy_lock_covers_every_call[of "rotateLayer Y 0 1 True 300 0 noResidue newRubiksCube"
        X 1 1 False 300 5 noResidue]
      busy_lock_covers_every_call[of newRubiksCube X 1 1 False 300 5 noResidue]
    by simp
qed

subsection \<open>Positions stay a permutation of the grid\<close>

text \<open>
  Claim C3: from the solved cube, after any sequence of valid \<open>rotateLayer\<close> calls
  (instant or animated) and animation frames, there are 27 cubies, every position is in
  \<open>{-1, 0, 1}\<close> cubed, the positions are pairwise distinct, and together they are the
  whole grid: every turn permutes the 27 grid positions.
\<close>

theorem positions_permute_grid:
  assumes "list_all validEvent evs"
  shows "length (cubies (run evs newRubiksCube)) = 27 \<and>
         list_all (\<lambda>c. inGrid (position c)) (cubies (run evs newRubiksCube)) \<and>
         distinct (map position (cubies (run evs newRubiksCube))) \<and>
         set (map position (cubies (run evs newRubiksCube))) = set gridPositions"
proof -
  have g: "goodCubies (cubies (run evs newRubiksCube))"
    using wellFormed_run[OF assms] by (simp add: wellFormed_def)
  then show ?thesis
    using goodCubies_length[OF g] goodCubies_inGrid[OF g]
    by (simp add: goodCubies_def list_all_iff)
qed

theorem positions_permute_grid_witness:
  "list_all validEvent
     [RotateLayer X 1 1 False 300 0 noResidue, RotateLayer Y 0 (- 1) True 300 10 noResidue,
      Frame 100 noResidue, Frame 400 negResidue] \<and>
   length (cubies (run [RotateLayer X 1 1 False 300 0 noResidue,
                        RotateLayer Y 0 (- 1) True 300 10 noResidue,
                        Frame 100 noResidue, Frame 400 negResidue] newRubiksCube)) = 27 \<and>
   distinct (map position (cubies (run [RotateLayer X 1 1 False 300 0 noResidue,
                        RotateLayer Y 0 (- 1) True 300 10 noResidue,
                        Frame 100 noResidue, Frame 400 negResidue] newRubiksCube)))"
  using positions_permute_grid[of "[RotateLayer X 1 1 False 300 0 noResidue,
          RotateLayer Y 0 (- 1) True 300 10 noResidue, Frame 100 noResidue, Frame 400 negResidue]"]
  by simp

subsection \<open>Layers\<close>

text \<open>
  Claim C5: in every state reached from the solved cube by valid calls and frames, for
  every axis the selection of each of the layers \<open>-1\<close>, \<open>0\<close> and \<open>1\<close> holds exactly 9
  cubies, the three selections are pairwise disjoint, and together they are all 27 cubies.
\<close>

theorem layers_partition_cubies:
  assumes "list_all validEvent evs"
  shows "length (cubies (run evs newRubiksCube)) = 27 \<and>
         length (selectLayer (cubies (run evs newRubiksCube)) ax (- 1)) = 9 \<and>
         length (selectLayer (cubies (run evs newRubiksCube)) ax 0) = 9 \<and>
         length (selectLayer (cubies (run evs newRubiksCube)) ax 1) = 9 \<and>
         set (selectLayer (cubies (run evs newRubiksCube)) ax (- 1))
           \<inter> set (selectLayer (cubies (run evs newRubiksCube)) ax 0) = {} \<and>
         set (selectLayer (cubies (run evs newRubiksCube)) ax (- 1))
           \<inter> set (selectLayer (cubies (run evs newRubiksCube)) ax 1) = {} \<and>
         set (selectLayer (cubies (run evs newRubiksCube)) ax 0)
           \<inter> set (selectLayer (cubies (run evs newRubiksCube)) ax 1) = {} \<and>
         set (selectLayer (cubies (run evs newRubiksCube)) ax (- 1))
           \<union> set (selectLayer (cubies (run evs newRubiksCube)) ax 0)
           \<union> set (selectLayer (cubies (run evs newRubiksCube)) ax 1)
           = {0 ..< length (cubies (run evs newRubiksCube))}"
proof -
  let ?cs = "cubies (run evs newRubiksCube)"
  have g: "goodCubies ?cs"
    using wellFormed_run[OF assms] by (simp add: wellFormed_def)
  have n: "length ?cs = 27" by (rule goodCubies_length[OF g])
  have c: "length (selectLayer ?cs ax (- 1)) = 9" "length (selectLayer ?cs ax 0) = 9"
    "length (selectLayer ?cs ax 1) = 9"
    by (rule selectLayer_count[OF g]; simp)+
  have d: "set (selectLayer ?cs ax (- 1)) \<inter> set (selectLayer ?cs ax 0) = {}"
    "set (selectLayer ?cs ax (- 1)) \<inter> set (selectLayer ?cs ax 1) = {}"
    "set (selectLayer ?cs ax 0) \<inter> set (selectLayer ?cs ax 1) = {}"
    by (auto simp: selectLayer_def)
  have r: "getComponent ax (position (?cs ! i)) = - 1 \<or> getComponent ax (position (?cs ! i)) = 0
        \<or> getComponent ax (position (?cs ! i)) = 1" if "i < length ?cs" for i
    using goodCubies_inGrid[OF g nth_mem[OF that]]
    by (cases ax; cases "position (?cs ! i)") auto
  have u: "set (selectLayer ?cs ax (- 1)) \<union> set (selectLayer ?cs ax 0)
                \<union> set (selectLayer ?cs ax 1) = {0 ..< length ?cs}"
    using r unfolding selectLayer_def Math_round_def set_filter by fastforce
  show ?thesis using n c d u by simp
qed

theorem layers_partition_cubies_witness:
  "list_all validEvent [RotateLayer Z (- 1) 1 False 300 0 noResidue,
                        RotateLayer X 0 (- 1) False 300 0 negResidue] \<and>
   length (selectLayer (cubies (run [RotateLayer Z (- 1) 1 False 300 0 noResidue,
             RotateLayer X 0 (- 1) False 300 0 negResidue] newRubiksCube)) Y 1) = 9"
  using layers_partition_cubies[of "[RotateLayer Z (- 1) 1 False 300 0 noResidue,
          RotateLayer X 0 (- 1) False 300 0 negResidue]" Y]
  by simp

subsection \<open>Four quarter turns, and a turn with its inverse\<close>

text \<open>
  The Euler angles themselves need not come back. After two turns of the right layer a
  cubie of it stands at half a turn about \<open>x\<close>, stored as \<open>PI\<close> or as \<open>-PI\<close> by the sign of
  a zero; a turn and its inverse from the state with \<open>-PI\<close> can leave \<open>PI\<close>. Both are the
  same orientation, and the orientation is what the next two theorems compare.
\<close>

lemma half_turn_sign:
  "rotation (cubies (run [RotateLayer X 1 1 False 300 0 noResidue,
                         RotateLayer X 1 1 False 300 0 negResidue] newRubiksCube) ! 26)
     = (- 2, 0, 0) \<and>
   rotation (cubies (rotateLayer X 1 (- 1) False 300 0 noResidue
                      (rotateLayer X 1 1 False 300 0 noResidue
                        (run [RotateLayer X 1 1 False 300 0 noResidue,
                              RotateLayer X 1 1 False 300 0 negResidue] newRubiksCube))) ! 26)
     = (2, 0, 0) \<and>
   makeRotationFromEuler (- 2, 0, 0) = makeRotationFromEuler (2, 0, 0)"
  by code_simp

text \<open>
  Claim C6: in every state reached from the solved cube by valid calls and frames, four
  instant calls \<open>rotateLayer(axis, index, direction, false)\<close> with the same arguments
  give back the pose of every cubie, its position and its orientation, whatever the
  signs of the zeros met on the way; the engine is as busy or idle as before.
\<close>

theorem four_quarter_turns_restore:
  assumes "list_all validEvent evs" and "d = 1 \<or> d = - 1"
  shows "map pose (cubies
           (rotateLayer ax index d False dur4 now4 sgs4
             (rotateLayer ax index d False dur3 now3 sgs3
               (rotateLayer ax index d False dur2 now2 sgs2
                 (rotateLayer ax index d False dur1 now1 sgs1 (run evs newRubiksCube))))))
           = map pose (cubies (run evs newRubiksCube)) \<and>
         isAnimating
           (rotateLayer ax index d False dur4 now4 sgs4
             (rotateLayer ax index d False dur3 now3 sgs3
               (rotateLayer ax index d False dur2 now2 sgs2
                 (rotateLayer ax index d False dur1 now1 sgs1 (run evs newRubiksCube)))))
           = isAnimating (run evs newRubiksCube) \<and>
         pending
           (rotateLayer ax index d False dur4 now4 sgs4
             (rotateLayer ax index d False dur3 now3 sgs3
               (rotateLayer ax index d False dur2 now2 sgs2
                 (rotateLayer ax index d False dur1 now1 sgs1 (run evs newRubiksCube)))))
           = pending (run evs newRubiksCube)"
  by (rule four_turns_pose[OF wellFormed_run[OF assms(1)] assms(2)])

theorem four_quarter_turns_restore_witness:
  "list_all validEvent [RotateLayer X 1 1 False 300 0 noResidue,
                        RotateLayer X 1 1 False 300 0 negResidue] \<and>
   ((1::int) = 1 \<or> (1::int) = - 1) \<and>
   map pose (cubies
     (rotateLayer X 1 1 False 300 0 noResidue
       (rotateLayer X 1 1 False 300 0 negResidue
         (rotateLayer X 1 1 False 300 0 noResidue
           (rotateLayer X 1 1 False 300 0 noResidue
             (run [RotateLayer X 1 1 False 300 0 noResidue,
                   RotateLayer X 1 1 False 300 0 negResidue] newRubiksCube))))))
   = map pose (cubies (run [RotateLayer X 1 1 False 300 0 noResidue,
                            RotateLayer X 1 1 False 300 0 negResidue] newRubiksCube))"
  using four_quarter_turns_restore[of "[RotateLayer X 1 1 False 300 0 noResidue,
          RotateLayer X 1 1 False 300 0 negResidue]" 1 X 1 300 0 noResidue 300 0 negResidue
          300 0 noResidue 300 0 noResidue]
  by simp

text \<open>
  Claim C7: in every state reached from the solved cube by valid calls and frames,
  \<open>rotateLayer('x', 1, 1, false)\<close> followed by \<open>rotateLayer('x', 1, -1, false)\<close> gives
  back the pose of all 27 cubies, position and orientation, whatever the signs of the
  zeros met on the way; the engine is as busy or idle as before.
\<close>

theorem turn_then_inverse_is_identity:
  assumes "list_all validEvent evs"
  shows "map pose (cubies
           (rotateLayer X 1 (- 1) False dur2 now2 sgs2
             (rotateLayer X 1 1 False dur1 now1 sgs1 (run evs newRubiksCube))))
           = map pose (cubies (run evs newRubiksCube)) \<and>
         isAnimating
           (rotateLayer X 1 (- 1) False dur2 now2 sgs2
             (rotateLayer X 1 1 False dur1 now1 sgs1 (run evs newRubiksCube)))
           = isAnimating (run evs newRubiksCube) \<and>
         pending
           (rotateLayer X 1 (- 1) False dur2 now2 sgs2
             (rotateLayer X 1 1 False dur1 now1 sgs1 (run evs newRubiksCube)))
           = pending (run evs newRubiksCube)"
  by (rule undo_turn_pose[OF wellFormed_run[OF assms]])

theorem turn_then_inverse_is_identity_witness:
  "list_all validEvent [RotateLayer X 1 1 False 300 0 noResidue,
                        RotateLayer X 1 1 False 300 0 negResidue] \<and>
   map pose (cubies
     (rotateLayer X 1 (- 1) False 300 0 noResidue
       (rotateLayer X 1 1 False 300 0 noResidue
         (run [RotateLayer X 1 1 False 300 0 noResidue,
               RotateLayer X 1 1 False 300 0 negResidue] newRubiksCube))))
   = map pose (cubies (run [RotateLayer X 1 1 False 300 0 noResidue,
                            RotateLayer X 1 1 False 300 0 negResidue] newRubiksCube))"
  using turn_then_inverse_is_identity[of "[RotateLayer X 1 1 False 300 0 noResidue,
          RotateLayer X 1 1 False 300 0 negResidue]" 300 0 noResidue 300 0 noResidue]
  by simp

subsection \<open>Calls that do nothing\<close>

text \<open>
  Claim C8: in every state reached from the solved cube by valid calls and frames, a
  \<open>rotateLayer\<close> call made mid-animation, and a call whose layer index is none of
  \<open>-1\<close>, \<open>0\<close>, \<open>1\<close>, returns the state unchanged; the call has no error result.
\<close>

theorem degenerate_calls_are_noops:
  assumes "list_all validEvent evs"
    and "isAnimating (run evs newRubiksCube) \<or> (index \<noteq> - 1 \<and> index \<noteq> 0 \<and> index \<noteq> 1)"
  shows "rotateLayer ax index d animate dur now sgs (run evs newRubiksCube)
         = run evs newRubiksCube"
proof (cases "isAnimating (run evs newRubiksCube)")
  case True
  then show ?thesis by (rule rotateLayer_busy)
next
  case False
  have g: "goodCubies (cubies (run evs newRubiksCube))"
    using wellFormed_run[OF assms(1)] by (simp add: wellFormed_def)
  have "selectLayer (cubies (run evs newRubiksCube)) ax index = []"
    using False assms(2) by (intro selectLayer_outside[OF g]) auto
  then show ?thesis by (simp add: rotateLayer_def)
qed

theorem degenerate_calls_are_noops_witness:
  "list_all validEvent [RotateLayer X 1 1 False 300 0 noResidue] \<and>
   rotateLayer Y 2 1 False 300 0 noResidue (run [RotateLayer X 1 1 False 300 0 noResidue] newRubiksCube)
     = run [RotateLayer X 1 1 False 300 0 noResidue] newRubiksCube \<and>
   list_all validEvent [RotateLayer X 1 1 True 300 0 noResidue, Frame 100 noResidue] \<and>
   isAnimating (run [RotateLayer X 1 1 True 300 0 noResidue, Frame 100 noResidue] newRubiksCube) \<and>
   rotateLayer Y 1 1 False 300 150 noResidue
       (run [RotateLayer X 1 1 True 300 0 noResidue, Frame 100 noResidue] newRubiksCube)
     = run [RotateLayer X 1 1 True 300 0 noResidue, Frame 100 noResidue] newRubiksCube"
proof -
  have b: "isAnimating (run [RotateLayer X 1 1 True 300 0 noResidue, Frame 100 noResidue]
                          newRubiksCube)"
    by code_simp
  show ?thesis
    using b
      degenerate_calls_are_noops[of "[RotateLayer X 1 1 False 300 0 noResidue]" 2 Y 1 False 300 0
        noResidue]
      degenerate_calls_are_noops[of "[RotateLayer X 1 1 True 300 0 noResidue, Frame 100 noResidue]"
        1 Y 1 False 300 150 noResidue]
    by simp
qed

section \<open>Properties of the gesture resolver\<close>

subsection \<open>The loop over the candidates\<close>

lemma chooseAxis_pair:
  "chooseAxis project pt d [a1, a2] =
     (let s1 = \<bar>dot2 d (normalize2 (screenVector project pt a1))\<bar>;
          s2 = \<bar>dot2 d (normalize2 (screenVector project pt a2))\<bar>
      in if s1 > 0 then (if s2 > s1 then (s2, Some a2) else (s1, Some a1))
         else (if s2 > 0 then (s2, Some a2) else (0, None)))"
  by (simp add: chooseAxis_def Let_def)

lemma possibleAxes_pair: "\<exists>a1 a2. possibleAxes n = [a1, a2]"
  by (cases n) (simp add: possibleAxes_def)

lemma chooseAxis_best:
  "chooseAxis project pt d axes = (m, b) \<Longrightarrow> 0 < m \<Longrightarrow> b \<noteq> None"
proof -
  have inv: "0 < fst (foldl (\<lambda>(maxDot, bestAxis) ax.
              let axisVec2D = normalize2 (screenVector project pt ax);
                  dot = \<bar>dot2 d axisVec2D\<bar>
              in if dot > maxDot then (dot, Some ax) else (maxDot, bestAxis)) acc axes)
        \<longrightarrow> snd (foldl (\<lambda>(maxDot, bestAxis) ax.
              let axisVec2D = normalize2 (screenVector project pt ax);
                  dot = \<bar>dot2 d axisVec2D\<bar>
              in if dot > maxDot then (dot, Some ax) else (maxDot, bestAxis)) acc axes) \<noteq> None"
    if "0 < fst acc \<longrightarrow> snd acc \<noteq> None" for acc
    using that
  proof (induction axes arbitrary: acc)
    case Nil
    then show ?case by simp
  next
    case (Cons a axes)
    show ?case
      unfolding foldl_Cons
      by (rule Cons.IH) (use Cons.prems in \<open>cases acc; cases a; simp add: Let_def\<close>)
  qed
  assume "chooseAxis project pt d axes = (m, b)" "0 < m"
  then show ?thesis using inv[of "(0, None)"] by (simp add: chooseAxis_def)
qed

lemma resolveMove_no_error: "resolveMove project obj normal pt dx dy \<noteq> Inl e"
proof -
  obtain m b where c: "chooseAxis project pt (normalize2 (dx, - dy))
                         (possibleAxes (worldNormalOf obj normal)) = (m, b)"
    by (cases "chooseAxis project pt (normalize2 (dx, - dy))
                 (possibleAxes (worldNormalOf obj normal))")
  show ?thesis
    using chooseAxis_best[OF c] c
    by (auto simp: resolveMove_def Let_def split: option.splits)
qed






lemma worldNormal_corner: "worldNormalOf cornerCubie (0, 0, 1) = (0, 0, 1)"
  by (simp add: worldNormalOf_def cornerCubie_def matrixWorld_def makeRotationFromEuler_def
        cosq_def sinq_def realVec_def getNormalMatrix_def invert_def transpose3_def
        applyMatrix3r_def normalize3_def Let_def)



lemma sqrt_18: "sqrt 18 = 3 * sqrt 2"
proof -
  have "sqrt 18 = sqrt (9 * 2)" by simp
  also have "\<dots> = sqrt 9 * sqrt 2" by (rule real_sqrt_mult)
  also have "sqrt 9 = 3" using real_sqrt_abs[of 3] by simp
  finally show ?thesis .
qed

lemma cos_45_sqrt: "cos (pi / 4) = 1 / sqrt 2"
proof -
  have "sqrt 2 * sqrt 2 = 2" by simp
  then have "sqrt 2 / 2 = 1 / sqrt 2" by (simp add: field_simps)
  then show ?thesis by (simp add: cos_45)
qed

lemma half_less_cos_45: "1 / 2 < cos (pi / 4)"
proof -
  have "sqrt 2 > sqrt 1" by (simp only: real_sqrt_less_iff)
  then have "sqrt 2 / 2 > 1 / 2" by simp
  then show ?thesis by (simp add: cos_45)
qed

lemma possibleAxes_corner:
  "possibleAxes (worldNormalOf cornerCubie (0, 0, 1)) = [(1, 0, 0), (0, 1, 0)]"
  by (simp add: worldNormal_corner possibleAxes_def)

lemma dragVec_diagonal: "normalize2 (3, 3) = (1 / sqrt 2, 1 / sqrt 2)"
  by (simp add: normalize2_def Let_def sqrt_18)

lemma screen_front_x:
  "normalize2 (screenVector frontCamera (1, 1, 3 / 2) (1, 0, 0)) = (1, 0)"
  by (simp add: screenVector_def frontCamera_def addVec_def normalize2_def Let_def)

lemma screen_front_y:
  "normalize2 (screenVector frontCamera (1, 1, 3 / 2) (0, 1, 0)) = (0, 1)"
  by (simp add: screenVector_def frontCamera_def addVec_def normalize2_def Let_def)

lemma decideMove_front:
  "decideMove frontCamera cornerCubie (0, 0, 1) (1, 1, 3 / 2) (1 / sqrt 2, 1 / sqrt 2) (1, 0, 0)
   = Move Y 1 1"
  by (simp add: decideMove_def Let_def crossVectors_def normalize3_def rotAxisNameOf_def
        cornerCubie_def Math_round_def screen_front_x dot2_def dot3_def realVec_def)

lemma resolveMove_front_diagonal:
  "resolveMove frontCamera cornerCubie (0, 0, 1) (1, 1, 3 / 2) 3 (- 3) = Inr (Some (Move Y 1 1))"
proof -
  have c: "chooseAxis frontCamera (1, 1, 3 / 2) (1 / sqrt 2, 1 / sqrt 2) [(1, 0, 0), (0, 1, 0)]
           = (1 / sqrt 2, Some (1, 0, 0))"
    by (simp add: chooseAxis_pair screen_front_x screen_front_y dot2_def Let_def)
  have g: "1 / 2 < 1 / sqrt 2" using half_less_cos_45 by (simp add: cos_45_sqrt)
  show ?thesis
    unfolding resolveMove_def
    using g
    by (simp add: worldNormal_corner possibleAxes_def dragVec_diagonal c decideMove_front)
qed

subsection \<open>A drag to the right on the front face\<close>

lemma sqrt_9: "sqrt 9 = 3"
  using real_sqrt_abs[of 3] by simp

lemma worldNormal_edge: "worldNormalOf edgeCubie (0, 0, 1) = (0, 0, 1)"
  by (simp add: worldNormalOf_def edgeCubie_def matrixWorld_def makeRotationFromEuler_def
        cosq_def sinq_def realVec_def getNormalMatrix_def invert_def transpose3_def
        applyMatrix3r_def normalize3_def Let_def)

lemma dragVec_right: "normalize2 (3, 0) = (1, 0)"
  by (simp add: normalize2_def Let_def sqrt_9)

lemma screen_edge_x:
  "normalize2 (screenVector frontCamera (0, 1, 3 / 2) (1, 0, 0)) = (1, 0)"
  by (simp add: screenVector_def frontCamera_def addVec_def normalize2_def Let_def)

lemma screen_edge_y:
  "normalize2 (screenVector frontCamera (0, 1, 3 / 2) (0, 1, 0)) = (0, 1)"
  by (simp add: screenVector_def frontCamera_def addVec_def normalize2_def Let_def)

lemma decideMove_right:
  "decideMove frontCamera edgeCubie (0, 0, 1) (0, 1, 3 / 2) (1, 0) (1, 0, 0) = Move Y 1 1"
  by (simp add: decideMove_def Let_def crossVectors_def normalize3_def rotAxisNameOf_def
        edgeCubie_def Math_round_def screen_edge_x dot2_def dot3_def realVec_def)

lemma resolveMove_front_right:
  "resolveMove frontCamera edgeCubie (0, 0, 1) (0, 1, 3 / 2) 3 0 = Inr (Some (Move Y 1 1))"
proof -
  have c: "chooseAxis frontCamera (0, 1, 3 / 2) (1, 0) [(1, 0, 0), (0, 1, 0)]
           = (1, Some (1, 0, 0))"
    by (simp add: chooseAxis_pair screen_edge_x screen_edge_y dot2_def Let_def)
  show ?thesis
    unfolding resolveMove_def
    by (simp add: worldNormal_edge possibleAxes_def dragVec_right c decideMove_right)
qed

subsection \<open>The sense of a turn\<close>

text \<open>
  What the code does: on an idle engine and a layer that is not empty, \<open>rotateLayer\<close>
  turns the pivot by minus \<open>direction\<close> quarter turns about the named axis, on the instant
  path and on the animated path once a frame at or after \<open>startTime + duration\<close> has
  completed it. Positive angles are right-handed: a quarter turn about \<open>x\<close> takes \<open>y\<close>
  to \<open>z\<close>, about \<open>y\<close> takes \<open>z\<close> to \<open>x\<close>, about \<open>z\<close> takes \<open>x\<close> to \<open>y\<close>.
\<close>

lemma rotateLayer_pivot_angle:
  assumes "\<not> isAnimating st" and "selectLayer (cubies st) ax index \<noteq> []"
    and "0 < dur" and "now + dur \<le> time"
  shows "rotateLayer ax index d False dur now sgs st
           = finishRotation (- d) (selectLayer (cubies st) ax index) ax sgs st \<and>
         map_option targetRotation (pending (rotateLayer ax index d True dur now sgs' st))
           = Some (- d) \<and>
         animateStep time sgs (rotateLayer ax index d True dur now sgs' st)
           = finishRotation (- d) (selectLayer (cubies st) ax index) ax sgs st \<and>
         applyMatrix3 (pivotMatrix X 1) (0, 1, 0) = (0, 0, 1) \<and>
         applyMatrix3 (pivotMatrix Y 1) (0, 0, 1) = (1, 0, 0) \<and>
         applyMatrix3 (pivotMatrix Z 1) (1, 0, 0) = (0, 1, 0)"
proof -
  have p: "\<not> min ((time - now) / dur) 1 < 1"
    using assms(3,4) by (simp add: min_def le_divide_eq)
  have m: "applyMatrix3 (pivotMatrix X 1) (0, 1, 0) = (0, 0, 1)"
    "applyMatrix3 (pivotMatrix Y 1) (0, 0, 1) = (1, 0, 0)"
    "applyMatrix3 (pivotMatrix Z 1) (1, 0, 0) = (0, 1, 0)"
    by code_simp+
  have a: "rotateLayer ax index d False dur now sgs st
           = finishRotation (- d) (selectLayer (cubies st) ax index) ax sgs st"
    using assms(1,2) by (simp add: rotateLayer_def Let_def)
  have b: "map_option targetRotation (pending (rotateLayer ax index d True dur now sgs' st))
           = Some (- d)"
    using assms(1,2) by (simp add: rotateLayer_def Let_def)
  have c: "animateStep time sgs (rotateLayer ax index d True dur now sgs' st)
           = finishRotation (- d) (selectLayer (cubies st) ax index) ax sgs st"
    using assms(1,2) p by (simp add: rotateLayer_def animateStep_def finishRotation_def Let_def)
  show ?thesis using a b c m by simp
qed

text \<open>
  Claim C2 fails on the code, and the code is at odds with itself. The header comment of
  \<open>rotateLayer\<close> gives direction \<open>1\<close> as counter-clockwise, and the resolver computes
  direction \<open>1\<close> for the right-handed turn about the positive axis. The engine multiplies
  the angle by \<open>-1\<close>: for \<open>rotateLayer('x', 1, 1)\<close> the pivot's target is minus a quarter
  turn, and the edge cubie at \<open>(1, 1, 0)\<close> goes to \<open>(1, 0, -1)\<close>, where the right-handed
  quarter turn takes \<open>y\<close> to \<open>z\<close>. A drag to the right on the front face, on the edge
  cubie at \<open>(0, 1, 1)\<close>, is resolved to \<open>rotateLayer('y', 1, 1)\<close>, and that turn takes the
  cubie to \<open>(-1, 1, 0)\<close>, to the left.
\<close>

theorem direction_one_turns_left_handed:
  "map_option targetRotation (pending (rotateLayer X 1 1 True 300 0 noResidue newRubiksCube))
     = Some (- 1) \<and>
   applyMatrix3 (pivotMatrix X 1) (0, 1, 0) = (0, 0, 1) \<and>
   position (cubies newRubiksCube ! 25) = (1, 1, 0) \<and>
   position (cubies (rotateLayer X 1 1 False 300 0 noResidue newRubiksCube) ! 25) = (1, 0, - 1) \<and>
   cubies newRubiksCube ! 17 = edgeCubie \<and>
   resolveMove frontCamera edgeCubie (0, 0, 1) (0, 1, 3 / 2) 3 0 = Inr (Some (Move Y 1 1)) \<and>
   position (cubies (rotateLayer Y 1 1 False 300 0 noResidue newRubiksCube) ! 17) = (- 1, 1, 0)"
proof -
  have e: "map_option targetRotation
             (pending (rotateLayer X 1 1 True 300 0 noResidue newRubiksCube)) = Some (- 1) \<and>
           applyMatrix3 (pivotMatrix X 1) (0, 1, 0) = (0, 0, 1) \<and>
           position (cubies newRubiksCube ! 25) = (1, 1, 0) \<and>
           position (cubies (rotateLayer X 1 1 False 300 0 noResidue newRubiksCube) ! 25)
             = (1, 0, - 1) \<and>
           cubies newRubiksCube ! 17 = edgeCubie \<and>
           position (cubies (rotateLayer Y 1 1 False 300 0 noResidue newRubiksCube) ! 17)
             = (- 1, 1, 0)"
    by code_simp
  show ?thesis using e resolveMove_front_right by simp
qed

subsection \<open>A drag along the diagonal\<close>

text \<open>
  Against claim C4: on the front face seen head-on, the drag \<open>(dx, dy) = (3, -3)\<close> makes
  45 degrees with both candidate screen directions, and the resolver calls
  \<open>rotateLayer('y', 1, 1)\<close>.
\<close>

theorem diagonal_drag_emits_move:
  "\<bar>dot2 (normalize2 (3, - (- 3)))
        (normalize2 (screenVector frontCamera (1, 1, 3 / 2) (1, 0, 0)))\<bar> = cos (pi / 4) \<and>
   \<bar>dot2 (normalize2 (3, - (- 3)))
        (normalize2 (screenVector frontCamera (1, 1, 3 / 2) (0, 1, 0)))\<bar> = cos (pi / 4) \<and>
   possibleAxes (worldNormalOf cornerCubie (0, 0, 1)) = [(1, 0, 0), (0, 1, 0)] \<and>
   resolveMove frontCamera cornerCubie (0, 0, 1) (1, 1, 3 / 2) 3 (- 3)
     = Inr (Some (Move Y 1 1))"
  by (simp add: dragVec_diagonal screen_front_x screen_front_y dot2_def cos_45_sqrt
        possibleAxes_corner resolveMove_front_diagonal)

text \<open>
  Claim C4, amended: for every pick, every camera and every drag sample outside the
  2-pixel dead zone whose direction makes 45 degrees with both candidate screen
  directions, the resolver emits a move, whatever the length of the drag.
\<close>

theorem diagonal_drag_passes_gate:
  assumes "\<not> (\<bar>dx\<bar> < 2 \<and> \<bar>dy\<bar> < 2)"
    and "possibleAxes (worldNormalOf obj normal) = [a1, a2]"
    and "\<bar>dot2 (normalize2 (dx, - dy)) (normalize2 (screenVector project pt a1))\<bar> = cos (pi / 4)"
    and "\<bar>dot2 (normalize2 (dx, - dy)) (normalize2 (screenVector project pt a2))\<bar> = cos (pi / 4)"
  shows "emitsMove (resolveMove project obj normal pt dx dy)"
proof -
  have pos: "0 < cos (pi / 4)" using half_less_cos_45 by simp
  have c: "chooseAxis project pt (normalize2 (dx, - dy)) [a1, a2] = (cos (pi / 4), Some a1)"
    using pos by (simp add: chooseAxis_pair assms(3,4) Let_def)
  show ?thesis
    using assms(1) half_less_cos_45
    by (simp add: resolveMove_def Let_def assms(2) c emitsMove_def)
qed

theorem diagonal_drag_passes_gate_witness:
  "\<not> (\<bar>300 :: real\<bar> < 2 \<and> \<bar>- 300 :: real\<bar> < 2) \<and>
   possibleAxes (worldNormalOf cornerCubie (0, 0, 1)) = [(1, 0, 0), (0, 1, 0)] \<and>
   \<bar>dot2 (normalize2 (300, - (- 300)))
        (normalize2 (screenVector frontCamera (1, 1, 3 / 2) (1, 0, 0)))\<bar> = cos (pi / 4) \<and>
   \<bar>dot2 (normalize2 (300, - (- 300)))
        (normalize2 (screenVector frontCamera (1, 1, 3 / 2) (0, 1, 0)))\<bar> = cos (pi / 4) \<and>
   emitsMove (resolveMove frontCamera cornerCubie (0, 0, 1) (1, 1, 3 / 2) 300 (- 300))"
proof -
  have s: "sqrt 180000 = 300 * sqrt 2"
  proof -
    have "sqrt 180000 = sqrt (90000 * 2)" by simp
    also have "\<dots> = sqrt 90000 * sqrt 2" by (rule real_sqrt_mult)
    also have "sqrt 90000 = 300" using real_sqrt_abs[of 300] by simp
    finally show ?thesis .
  qed
  have d: "normalize2 (300, 300) = (1 / sqrt 2, 1 / sqrt 2)"
    by (simp add: normalize2_def Let_def s)
  have nd: "\<not> (\<bar>300 :: real\<bar> < 2 \<and> \<bar>- 300 :: real\<bar> < 2)" by simp
  have h1: "\<bar>dot2 (normalize2 (300, - (- 300)))
               (normalize2 (screenVector frontCamera (1, 1, 3 / 2) (1, 0, 0)))\<bar> = cos (pi / 4)"
    by (simp add: d screen_front_x dot2_def cos_45_sqrt)
  have h2: "\<bar>dot2 (normalize2 (300, - (- 300)))
               (normalize2 (screenVector frontCamera (1, 1, 3 / 2) (0, 1, 0)))\<bar> = cos (pi / 4)"
    by (simp add: d screen_front_y dot2_def cos_45_sqrt)
  show ?thesis
    using nd possibleAxes_corner h1 h2
      diagonal_drag_passes_gate[OF nd possibleAxes_corner h1 h2]
    by simp
qed

subsection \<open>The confidence gate\<close>



subsection \<open>The two resolvers\<close>

text \<open>
  Against claim C10: on the same pick, camera and drag, with the pointer dragged off the
  cube, control.js returns without a move and Cube.jsx calls \<open>rotateLayer('y', 1, 1)\<close>.
\<close>

theorem backup_declines_off_the_cube:
  "resolveMove_backup False frontCamera cornerCubie (0, 0, 1) (1, 1, 3 / 2) 3 (- 3) = Inr None \<and>
   resolveMove frontCamera cornerCubie (0, 0, 1) (1, 1, 3 / 2) 3 (- 3) = Inr (Some (Move Y 1 1))"
  by (simp add: resolveMove_front_diagonal resolveMove_backup_def)

text \<open>
  Claim C10, amended: on the same pick, camera and drag, whenever the pointer is still
  over a cubie when the sample arrives, the resolver of control.js and the resolver of
  Cube.jsx compute the same move, or both decline; whenever the pointer has left the
  cube, control.js declines, whatever the drag.
\<close>

theorem resolvers_agree_on_the_cube:
  "(current \<longrightarrow>
      resolveMove_backup current project obj normal pt dx dy
      = resolveMove project obj normal pt dx dy) \<and>
   (\<not> current \<longrightarrow> resolveMove_backup current project obj normal pt dx dy = Inr None)"
  by (simp add: resolveMove_backup_def resolveMove_def Let_def split: prod.splits option.splits)

theorem resolvers_agree_on_the_cube_witness:
  "resolveMove_backup True frontCamera edgeCubie (0, 0, 1) (0, 1, 3 / 2) 3 0
     = resolveMove frontCamera edgeCubie (0, 0, 1) (0, 1, 3 / 2) 3 0 \<and>
   resolveMove_backup True frontCamera edgeCubie (0, 0, 1) (0, 1, 3 / 2) 3 0
     = Inr (Some (Move Y 1 1)) \<and>
   resolveMove_backup False frontCamera edgeCubie (0, 0, 1) (0, 1, 3 / 2) 3 0 = Inr None"
  using resolvers_agree_on_the_cube[of True frontCamera edgeCubie "(0, 0, 1)" "(0, 1, 3 / 2)" 3 0]
    resolvers_agree_on_the_cube[of False frontCamera edgeCubie "(0, 0, 1)" "(0, 1, 3 / 2)" 3 0]
    resolveMove_front_right
  by simp

end
